theory Spec2Isabelle
  imports Main "HOL-Library.Word"
begin

section \<open>Messages of the deliver protocol\<close>

text \<open>
  The handler of \<^verbatim>\<open>orderer/common/deliver/deliver.go\<close> reads envelopes from a gRPC
  stream, validates each one, and streams blocks of one channel back. The protobuf
  messages it touches are records here; a Go pointer that may be nil is an
  \<open>option\<close>; \<^verbatim>\<open>uint64\<close> is \<open>64 word\<close>, so that subtraction wraps as in Go.
\<close>

type_synonym bytes = "8 word list"

text \<open>Go's \<^verbatim>\<open>error\<close>: the sentinel \<^verbatim>\<open>io.EOF\<close>, or any other error with its text.\<close>

datatype error = io_EOF | other_error string

text \<open>
  \<^verbatim>\<open>cb.Status\<close>: the four codes the handler names, and any further code a ledger may
  report through \<^verbatim>\<open>cursor.Next()\<close>.
\<close>

datatype Status =
    Status_SUCCESS
  | Status_BAD_REQUEST
  | Status_FORBIDDEN
  | Status_NOT_FOUND
  | Status_other "32 word"

record Envelope =
  Payload :: bytes
  Signature :: bytes

record Header =
  ChannelHeader :: bytes
  SignatureHeader :: bytes

text \<open>\<^verbatim>\<open>cb.Payload\<close>: \<^verbatim>\<open>payload.Header\<close> is a pointer, compared with nil at line 87.\<close>

record Payload =
  Header :: "Header option"
  Data :: bytes

record ChannelHeader =
  ChannelId :: string

record BlockHeader =
  Number :: "64 word"

text \<open>
  \<^verbatim>\<open>cb.Block\<close>: \<^verbatim>\<open>block.Header\<close> is a pointer, dereferenced at line 165 without a
  nil check.
\<close>

record Block =
  Block_Header :: "BlockHeader option"
  Block_Data :: "bytes list"

record SeekSpecified =
  SeekSpecified_Number :: "64 word"

text \<open>
  The oneof \<^verbatim>\<open>SeekPosition.Type\<close>. The wrapper \<^verbatim>\<open>SeekPosition_Specified\<close> holds a
  pointer to \<^verbatim>\<open>SeekSpecified\<close>; an unset oneof is a nil interface value, \<open>None\<close> in
  the field \<open>Type\<close>.
\<close>

datatype isSeekPosition_Type =
    SeekPosition_Newest
  | SeekPosition_Oldest
  | SeekPosition_Specified "SeekSpecified option"

record SeekPosition =
  Type :: "isSeekPosition_Type option"

datatype SeekInfo_SeekBehavior =
    SeekInfo_BLOCK_UNTIL_READY
  | SeekInfo_FAIL_IF_NOT_READY

record SeekInfo =
  Start :: "SeekPosition option"
  Stop :: "SeekPosition option"
  Behavior :: SeekInfo_SeekBehavior

text \<open>
  \<^verbatim>\<open>ab.DeliverResponse\<close>: a status or a block. \<^verbatim>\<open>sendBlockReply\<close> wraps whatever
  pointer \<^verbatim>\<open>cursor.Next()\<close> returned, so the block may be nil.
\<close>

datatype DeliverResponse =
    DeliverResponse_Status Status
  | DeliverResponse_Block "Block option"

section \<open>Collaborators\<close>

text \<open>\<^verbatim>\<open>filter.Action\<close>, the result of applying the signature filter.\<close>

datatype Action = Accept | Reject | Forward

text \<open>
  Modelled from the spec: the ledger's iterator (\<^verbatim>\<open>ledger.Iterator\<close>, with
  \<^verbatim>\<open>ReadyChan()\<close> and \<^verbatim>\<open>Next()\<close>) is declared outside deliver.go. The spec (sections 3
  and 6) describes it as a stateful handle with a readiness signal that can be waited on
  or polled, and a pull operation returning a block with a status. A cursor is the
  sequence of its positions. At position \<open>i\<close> the readiness signal is
  \<^item> \<open>Ready\<close>: already raised when the handler looks at it;
  \<^item> \<open>Pending\<close>: not raised when the handler looks at it, raised later when the ledger
    appends a block, so that a blocking receive returns and a poll does not;
  \<^item> \<open>Stalled\<close>: never raised again.
  The second component is what \<^verbatim>\<open>Next()\<close> returns at that position.
\<close>

datatype readiness = Ready | Pending | Stalled

type_synonym Cursor = "nat \<Rightarrow> readiness \<times> Block option \<times> Status"

definition ReadyChan :: "Cursor \<Rightarrow> nat \<Rightarrow> readiness" where
  "ReadyChan cursor i = fst (cursor i)"

definition Next :: "Cursor \<Rightarrow> nat \<Rightarrow> Block option \<times> Status" where
  "Next cursor i = snd (cursor i)"

text \<open>
  \<^verbatim>\<open>ledger.Reader\<close>: \<^verbatim>\<open>Iterator(startPosition)\<close> returns a cursor and the block number
  it starts at; \<^verbatim>\<open>Height()\<close> is the number of blocks of the chain.
\<close>

record Reader =
  Iterator :: "SeekPosition \<Rightarrow> Cursor \<times> 64 word"
  Height :: "64 word"

text \<open>The interface \<^verbatim>\<open>Support\<close>; the policy manager is an opaque handle.\<close>

record Support =
  PolicyManager :: nat
  Reader :: Reader

record SupportManager =
  GetChain :: "string \<Rightarrow> Support option"

record deliverServer =
  sm :: SupportManager

text \<open>
  The package-level functions the handler calls and deliver.go does not define:
  \<^verbatim>\<open>utils.UnmarshalPayload\<close>, \<^verbatim>\<open>utils.UnmarshalChannelHeader\<close>,
  \<^verbatim>\<open>sigfilter.New(policies.ChannelReaders, pm).Apply\<close> and \<^verbatim>\<open>proto.Unmarshal\<close> into a
  \<^verbatim>\<open>SeekInfo\<close>. They are parameters of the model.
\<close>

record Imports =
  UnmarshalPayload :: "bytes \<Rightarrow> error + Payload"
  UnmarshalChannelHeader :: "bytes \<Rightarrow> error + ChannelHeader"
  sigfilter_Apply :: "nat \<Rightarrow> Envelope \<Rightarrow> Action"
  proto_Unmarshal :: "bytes \<Rightarrow> error + SeekInfo"

text \<open>
  The stream \<^verbatim>\<open>ab.AtomicBroadcast_DeliverServer\<close>. \<open>Recv_result srv n\<close> is what the
  call number \<open>n\<close> of \<^verbatim>\<open>srv.Recv()\<close> returns, \<open>None\<close> when it never returns (the client
  neither sends nor hangs up). \<open>Send_result srv k\<close> is the error returned by the call
  number \<open>k\<close> of \<^verbatim>\<open>srv.Send\<close>, \<open>None\<close> for nil.
\<close>

record DeliverServer =
  Recv_result :: "nat \<Rightarrow> (error + Envelope) option"
  Send_result :: "nat \<Rightarrow> error option"

section \<open>The handler\<close>

text \<open>
  The state of a session is the list of responses handed to \<^verbatim>\<open>srv.Send\<close> so far, in
  order, and the number of envelopes received. \<open>Send\<close> appends the response to the list
  and returns the error of that call.
\<close>

definition Send ::
  "DeliverServer \<Rightarrow> DeliverResponse list \<Rightarrow> DeliverResponse \<Rightarrow> error option \<times> DeliverResponse list"
where
  "Send srv sent msg = (Send_result srv (length sent), sent @ [msg])"

definition sendStatusReply ::
  "DeliverServer \<Rightarrow> DeliverResponse list \<Rightarrow> Status \<Rightarrow> error option \<times> DeliverResponse list"
where
  "sendStatusReply srv sent status = Send srv sent (DeliverResponse_Status status)"

definition sendBlockReply ::
  "DeliverServer \<Rightarrow> DeliverResponse list \<Rightarrow> Block option \<Rightarrow> error option \<times> DeliverResponse list"
where
  "sendBlockReply srv sent block = Send srv sent (DeliverResponse_Block block)"

text \<open>
  How a call of \<^verbatim>\<open>Handle\<close> ends: it returns nil or an error, it stays blocked for ever
  in \<^verbatim>\<open>srv.Recv()\<close> or on the cursor's ready channel, or it panics on a nil pointer.
\<close>

datatype outcome =
    Returned "error option"
  | Blocked_in_Recv
  | Blocked_on_ReadyChan
  | Panicked

text \<open>
  A piece of the body of \<^verbatim>\<open>Handle\<close> either falls through to the statement after it
  (\<open>Proceed\<close>) or ends the call (\<open>Exit\<close>).
\<close>

datatype control = Proceed | Exit outcome

definition return_with ::
  "error option \<times> DeliverResponse list \<Rightarrow> (control \<times> DeliverResponse list) option"
where
  "return_with r = Some (Exit (Returned (fst r)), snd r)"

text \<open>
  Lines 127 to 139: the switch on the type of \<^verbatim>\<open>seekInfo.Stop.Type\<close>. \<^verbatim>\<open>stopNum\<close> is
  declared without a value, so it is 0 when no case matches.
\<close>

datatype stop_switch =
    StopNum "64 word"
  | Stop_before_start
  | Nil_dereference

definition stop_number :: "Reader \<Rightarrow> 64 word \<Rightarrow> SeekPosition \<Rightarrow> stop_switch" where
  "stop_number reader number stop =
    (case Type stop of
       Some SeekPosition_Oldest \<Rightarrow> StopNum number
     | Some SeekPosition_Newest \<Rightarrow> StopNum (Height reader - 1)
     | Some (SeekPosition_Specified specified) \<Rightarrow>
         (case specified of
            None \<Rightarrow> Nil_dereference
          | Some s \<Rightarrow>
              if SeekSpecified_Number s < number then Stop_before_start
              else StopNum (SeekSpecified_Number s))
     | None \<Rightarrow> StopNum 0)"

text \<open>
  Lines 142 to 150: wait for the ready channel, or poll it. A blocking receive returns
  as soon as the signal is raised and never returns on a stalled cursor; the
  \<^verbatim>\<open>select\<close> with a \<^verbatim>\<open>default\<close> case goes on only when the signal is raised already.
\<close>

datatype wait = Go | Hang | Default

definition await :: "SeekInfo_SeekBehavior \<Rightarrow> readiness \<Rightarrow> wait" where
  "await behavior r =
    (if behavior = SeekInfo_BLOCK_UNTIL_READY
     then (if r = Stalled then Hang else Go)
     else (if r = Ready then Go else Default))"

text \<open>
  Lines 141 to 168: the inner loop, at position \<open>i\<close> of the cursor. The result is
  \<open>None\<close> when the loop runs for ever, delivering block after block.
\<close>

partial_function (option) deliver_loop ::
  "DeliverServer \<Rightarrow> SeekInfo_SeekBehavior \<Rightarrow> 64 word \<Rightarrow> Cursor \<Rightarrow> nat \<Rightarrow>
   DeliverResponse list \<Rightarrow> (control \<times> DeliverResponse list) option"
where
  "deliver_loop srv behavior stopNum cursor i sent =
    (case await behavior (ReadyChan cursor i) of
       Hang \<Rightarrow> Some (Exit Blocked_on_ReadyChan, sent)
     | Default \<Rightarrow> return_with (sendStatusReply srv sent Status_NOT_FOUND)
     | Go \<Rightarrow>
        (case Next cursor i of (block, status) \<Rightarrow>
           if status \<noteq> Status_SUCCESS then return_with (sendStatusReply srv sent status)
           else
             (case sendBlockReply srv sent block of
                (Some err, sent') \<Rightarrow> Some (Exit (Returned (Some err)), sent')
              | (None, sent') \<Rightarrow>
                 (case block of
                    None \<Rightarrow> Some (Exit Panicked, sent')
                  | Some b \<Rightarrow>
                     (case Block_Header b of
                        None \<Rightarrow> Some (Exit Panicked, sent')
                      | Some h \<Rightarrow>
                          if stopNum = Number h then Some (Proceed, sent')
                          else deliver_loop srv behavior stopNum cursor (Suc i) sent')))))"

declare deliver_loop.simps [code]

text \<open>
  Lines 141 to 175: the inner loop, then the \<^verbatim>\<open>SUCCESS\<close> status when the loop ended
  by its \<^verbatim>\<open>break\<close>.
\<close>

definition deliver_range ::
  "DeliverServer \<Rightarrow> SeekInfo_SeekBehavior \<Rightarrow> 64 word \<Rightarrow> Cursor \<Rightarrow>
   DeliverResponse list \<Rightarrow> (control \<times> DeliverResponse list) option"
where
  "deliver_range srv behavior stopNum cursor sent =
    (case deliver_loop srv behavior stopNum cursor 0 sent of
       None \<Rightarrow> None
     | Some (Exit out, sent') \<Rightarrow> Some (Exit out, sent')
     | Some (Proceed, sent') \<Rightarrow>
        (case sendStatusReply srv sent' Status_SUCCESS of
           (Some err, sent'') \<Rightarrow> Some (Exit (Returned (Some err)), sent'')
         | (None, sent'') \<Rightarrow> Some (Proceed, sent'')))"

text \<open>
  Lines 81 to 175: the body of the outer loop once \<^verbatim>\<open>srv.Recv()\<close> has returned an
  envelope. \<open>Proceed\<close> is the end of the body, from where the outer loop reads the next
  envelope.
\<close>

definition Handle_envelope ::
  "Imports \<Rightarrow> deliverServer \<Rightarrow> DeliverServer \<Rightarrow> Envelope \<Rightarrow>
   DeliverResponse list \<Rightarrow> (control \<times> DeliverResponse list) option"
where
  "Handle_envelope imp ds srv envelope sent =
    (case UnmarshalPayload imp (Payload envelope) of
       Inl err \<Rightarrow> return_with (sendStatusReply srv sent Status_BAD_REQUEST)
     | Inr payload \<Rightarrow>
    (case Header payload of
       None \<Rightarrow> return_with (sendStatusReply srv sent Status_BAD_REQUEST)
     | Some hdr \<Rightarrow>
    (case UnmarshalChannelHeader imp (ChannelHeader hdr) of
       Inl err \<Rightarrow> return_with (sendStatusReply srv sent Status_BAD_REQUEST)
     | Inr chdr \<Rightarrow>
    (case GetChain (sm ds) (ChannelId chdr) of
       None \<Rightarrow> return_with (sendStatusReply srv sent Status_NOT_FOUND)
     | Some chain \<Rightarrow>
    if sigfilter_Apply imp (PolicyManager chain) envelope \<noteq> Forward
    then return_with (sendStatusReply srv sent Status_FORBIDDEN)
    else
    (case proto_Unmarshal imp (Data payload) of
       Inl err \<Rightarrow> return_with (sendStatusReply srv sent Status_BAD_REQUEST)
     | Inr seekInfo \<Rightarrow>
    (case Start seekInfo of
       None \<Rightarrow> return_with (sendStatusReply srv sent Status_BAD_REQUEST)
     | Some start \<Rightarrow>
    (case Stop seekInfo of
       None \<Rightarrow> return_with (sendStatusReply srv sent Status_BAD_REQUEST)
     | Some stop \<Rightarrow>
    (case Iterator (Reader chain) start of (cursor, number) \<Rightarrow>
    (case stop_number (Reader chain) number stop of
       Stop_before_start \<Rightarrow> return_with (sendStatusReply srv sent Status_BAD_REQUEST)
     | Nil_dereference \<Rightarrow> Some (Exit Panicked, sent)
     | StopNum stopNum \<Rightarrow>
         deliver_range srv (Behavior seekInfo) stopNum cursor sent)))))))))"

text \<open>
  Lines 66 to 177: the outer loop, about to make call number \<open>n\<close> of \<^verbatim>\<open>srv.Recv()\<close>.
  The result is \<open>None\<close> when the session never ends: the client keeps sending requests
  that are all served, or one request is served for ever.
\<close>

partial_function (option) Handle_from ::
  "Imports \<Rightarrow> deliverServer \<Rightarrow> DeliverServer \<Rightarrow> nat \<Rightarrow> DeliverResponse list \<Rightarrow>
   (outcome \<times> DeliverResponse list) option"
where
  "Handle_from imp ds srv n sent =
    (case Recv_result srv n of
       None \<Rightarrow> Some (Blocked_in_Recv, sent)
     | Some (Inl err) \<Rightarrow>
         if err = io_EOF then Some (Returned None, sent)
         else Some (Returned (Some err), sent)
     | Some (Inr envelope) \<Rightarrow>
        (case Handle_envelope imp ds srv envelope sent of
           None \<Rightarrow> None
         | Some (Exit out, sent') \<Rightarrow> Some (out, sent')
         | Some (Proceed, sent') \<Rightarrow> Handle_from imp ds srv (Suc n) sent'))"

declare Handle_from.simps [code]

definition Handle ::
  "Imports \<Rightarrow> deliverServer \<Rightarrow> DeliverServer \<Rightarrow> (outcome \<times> DeliverResponse list) option"
where
  "Handle imp ds srv = Handle_from imp ds srv 0 []"

section \<open>Requests\<close>

text \<open>
  An envelope is routed to \<open>chain\<close> when its payload and channel header parse and the
  channel it names is known (lines 81 to 104 pass).
\<close>

definition routed :: "Imports \<Rightarrow> deliverServer \<Rightarrow> Envelope \<Rightarrow> Payload \<Rightarrow> Support \<Rightarrow> bool" where
  "routed imp ds envelope payload chain \<longleftrightarrow>
     UnmarshalPayload imp (Payload envelope) = Inr payload \<and>
     (case Header payload of
        None \<Rightarrow> False
      | Some hdr \<Rightarrow>
         (case UnmarshalChannelHeader imp (ChannelHeader hdr) of
            Inl err \<Rightarrow> False
          | Inr chdr \<Rightarrow> GetChain (sm ds) (ChannelId chdr) = Some chain))"

text \<open>
  A well-formed, authorized seek request: it is routed, the signature filter answers
  \<open>Forward\<close>, and the payload data parse as a \<open>SeekInfo\<close> with both positions present
  (lines 81 to 122 pass).
\<close>

definition well_formed_authorized ::
  "Imports \<Rightarrow> deliverServer \<Rightarrow> Envelope \<Rightarrow> Support \<Rightarrow> SeekInfo \<Rightarrow> SeekPosition \<Rightarrow>
   SeekPosition \<Rightarrow> bool"
where
  "well_formed_authorized imp ds envelope chain seekInfo start stop \<longleftrightarrow>
     (case UnmarshalPayload imp (Payload envelope) of
        Inl err \<Rightarrow> False
      | Inr payload \<Rightarrow>
          routed imp ds envelope payload chain \<and>
          sigfilter_Apply imp (PolicyManager chain) envelope = Forward \<and>
          proto_Unmarshal imp (Data payload) = Inr seekInfo \<and>
          Start seekInfo = Some start \<and>
          Stop seekInfo = Some stop)"

text \<open>
  Position \<open>i\<close> of the cursor passes through the body of the inner loop, and the loop
  goes round again, when the ready channel lets the handler go on, \<^verbatim>\<open>Next()\<close> returns a
  block with a header and \<^verbatim>\<open>SUCCESS\<close>, the call number \<open>k\<close> of \<^verbatim>\<open>srv.Send\<close> succeeds, and
  the block's number is not the stop number.
\<close>

definition passes ::
  "DeliverServer \<Rightarrow> SeekInfo_SeekBehavior \<Rightarrow> 64 word \<Rightarrow> Cursor \<Rightarrow> nat \<Rightarrow> nat \<Rightarrow> bool"
where
  "passes srv behavior stopNum cursor k i \<longleftrightarrow>
     await behavior (ReadyChan cursor i) = Go \<and>
     snd (Next cursor i) = Status_SUCCESS \<and>
     Send_result srv k = None \<and>
     (case fst (Next cursor i) of
        None \<Rightarrow> False
      | Some b \<Rightarrow> (case Block_Header b of None \<Rightarrow> False | Some h \<Rightarrow> Number h \<noteq> stopNum))"

text \<open>The block responses for the positions \<open>i, ..., i + m - 1\<close> of a cursor.\<close>

definition block_replies :: "Cursor \<Rightarrow> nat \<Rightarrow> nat \<Rightarrow> DeliverResponse list" where
  "block_replies cursor i m = map (\<lambda>j. DeliverResponse_Block (fst (Next cursor j))) [i..<i + m]"

text \<open>
  The ways an envelope can be malformed before a channel is looked up: the payload
  does not unmarshal, the header is absent, or the channel header does not unmarshal
  (lines 81 to 96).
\<close>

definition malformed_envelope :: "Imports \<Rightarrow> Envelope \<Rightarrow> bool" where
  "malformed_envelope imp envelope \<longleftrightarrow>
     (case UnmarshalPayload imp (Payload envelope) of
        Inl err \<Rightarrow> True
      | Inr payload \<Rightarrow>
         (case Header payload of
            None \<Rightarrow> True
          | Some hdr \<Rightarrow>
             (case UnmarshalChannelHeader imp (ChannelHeader hdr) of
                Inl err \<Rightarrow> True
              | Inr chdr \<Rightarrow> False)))"

text \<open>
  The ways the seek request inside a payload can be malformed: the data do not
  unmarshal as a \<open>SeekInfo\<close>, or the start or the stop position is missing
  (lines 113 to 122).
\<close>

definition malformed_seekInfo :: "Imports \<Rightarrow> Payload \<Rightarrow> bool" where
  "malformed_seekInfo imp payload \<longleftrightarrow>
     (case proto_Unmarshal imp (Data payload) of
        Inl err \<Rightarrow> True
      | Inr seekInfo \<Rightarrow> Start seekInfo = None \<or> Stop seekInfo = None)"

text \<open>
  Modelled from the spec: the lowest retained block number of a ledger is not a method
  of the reader that deliver.go uses. The spec (section 3) says that the position
  \<open>Oldest\<close> resolves to the lowest retained block number, so it is the number the
  reader returns when an iterator is opened at \<open>Oldest\<close>.
\<close>

definition oldest_retained :: "Reader \<Rightarrow> 64 word" where
  "oldest_retained reader = snd (Iterator reader \<lparr>Type = Some SeekPosition_Oldest\<rparr>)"

text \<open>The block number a response carries, if it is a block with a header.\<close>

definition reply_number :: "DeliverResponse \<Rightarrow> nat option" where
  "reply_number r =
     (case r of
        DeliverResponse_Status status \<Rightarrow> None
      | DeliverResponse_Block None \<Rightarrow> None
      | DeliverResponse_Block (Some b) \<Rightarrow>
          (case Block_Header b of None \<Rightarrow> None | Some h \<Rightarrow> Some (unat (Number h))))"

text \<open>
  A cursor yields consecutive block numbers from \<open>number\<close> on: wherever \<^verbatim>\<open>Next()\<close>
  reports \<^verbatim>\<open>SUCCESS\<close>, at position \<open>j\<close>, the block has the number \<open>number + j\<close>.
\<close>

definition consecutive_from :: "Cursor \<Rightarrow> 64 word \<Rightarrow> bool" where
  "consecutive_from cursor number \<longleftrightarrow>
     (\<forall>j. snd (Next cursor j) = Status_SUCCESS \<longrightarrow>
        (case fst (Next cursor j) of
           None \<Rightarrow> False
         | Some b \<Rightarrow>
            (case Block_Header b of
               None \<Rightarrow> False
             | Some h \<Rightarrow> unat (Number h) = unat number + j)))"

section \<open>A small ledger and a small wire format\<close>

text \<open>
  Concrete collaborators, on which the handler can be run. A payload is one byte for
  the header (0: no header; 1: the channel \<open>mychannel\<close>; 2: the channel \<open>nochannel\<close>, which
  does not exist) followed by the data. A seek request is five bytes: tag and number of
  the start position, tag and number of the stop position, and the behavior. A position
  tag is 0 for an absent position, 1 for \<open>Oldest\<close>, 2 for \<open>Newest\<close>, 3 for \<open>Specified\<close> and
  anything else for a position whose oneof is not set. The signature filter forwards
  the envelopes whose signature is the byte 1.
\<close>

definition toy_position :: "8 word \<Rightarrow> 8 word \<Rightarrow> SeekPosition option" where
  "toy_position tag n =
     (if tag = 0 then None
      else if tag = 1 then Some \<lparr>Type = Some SeekPosition_Oldest\<rparr>
      else if tag = 2 then Some \<lparr>Type = Some SeekPosition_Newest\<rparr>
      else if tag = 3
        then Some \<lparr>Type = Some (SeekPosition_Specified (Some \<lparr>SeekSpecified_Number = ucast n\<rparr>))\<rparr>
      else Some \<lparr>Type = None\<rparr>)"

definition toy_seekInfo :: "bytes \<Rightarrow> error + SeekInfo" where
  "toy_seekInfo data =
     (case data of
        [a, m, b, n, c] \<Rightarrow>
          Inr \<lparr>Start = toy_position a m, Stop = toy_position b n,
               Behavior = (if c = 0 then SeekInfo_BLOCK_UNTIL_READY
                           else SeekInfo_FAIL_IF_NOT_READY)\<rparr>
      | _ \<Rightarrow> Inl (other_error ''malformed seek info''))"

definition toy_imports :: Imports where
  "toy_imports =
     \<lparr>UnmarshalPayload = (\<lambda>bs.
        case bs of
          [] \<Rightarrow> Inl (other_error ''no payload'')
        | h # data \<Rightarrow>
            Inr \<lparr>Header = (if h = 0 then None
                           else Some \<lparr>ChannelHeader = [h], SignatureHeader = []\<rparr>),
                 Data = data\<rparr>),
      UnmarshalChannelHeader = (\<lambda>bs.
        if bs = [1] then Inr \<lparr>ChannelId = ''mychannel''\<rparr>
        else if bs = [2] then Inr \<lparr>ChannelId = ''nochannel''\<rparr>
        else Inl (other_error ''malformed channel header'')),
      sigfilter_Apply = (\<lambda>pm envelope. if Signature envelope = [1] then Forward else Reject),
      proto_Unmarshal = toy_seekInfo\<rparr>"

definition toy_block :: "nat \<Rightarrow> Block" where
  "toy_block n = \<lparr>Block_Header = Some \<lparr>Number = of_nat n\<rparr>, Block_Data = []\<rparr>"

text \<open>
  A ledger that holds the blocks \<open>0, ..., height - 1\<close> now and will hold the blocks up
  to \<open>final - 1\<close> in the end: a cursor opened at \<open>start\<close> is ready for the blocks below
  \<open>height\<close>, pending for the blocks below \<open>final\<close>, and stalled from there on.
\<close>

definition toy_cursor :: "nat \<Rightarrow> nat \<Rightarrow> nat \<Rightarrow> Cursor" where
  "toy_cursor height final start =
     (\<lambda>j. if start + j < height then (Ready, Some (toy_block (start + j)), Status_SUCCESS)
          else if start + j < final then (Pending, Some (toy_block (start + j)), Status_SUCCESS)
          else (Stalled, None, Status_NOT_FOUND))"

definition toy_start :: "nat \<Rightarrow> SeekPosition \<Rightarrow> nat" where
  "toy_start height position =
     (case Type position of
        Some SeekPosition_Oldest \<Rightarrow> 0
      | Some SeekPosition_Newest \<Rightarrow> height - 1
      | Some (SeekPosition_Specified (Some s)) \<Rightarrow> unat (SeekSpecified_Number s)
      | _ \<Rightarrow> 0)"

definition toy_reader :: "nat \<Rightarrow> nat \<Rightarrow> Reader" where
  "toy_reader height final =
     \<lparr>Iterator = (\<lambda>position.
        (toy_cursor height final (toy_start height position),
         of_nat (toy_start height position))),
      Height = of_nat height\<rparr>"

definition toy_chain :: "nat \<Rightarrow> nat \<Rightarrow> Support" where
  "toy_chain height final = \<lparr>PolicyManager = 0, Reader = toy_reader height final\<rparr>"

definition toy_server :: "nat \<Rightarrow> nat \<Rightarrow> deliverServer" where
  "toy_server height final =
     \<lparr>sm = \<lparr>GetChain = (\<lambda>chainID.
        if chainID = ''mychannel'' then Some (toy_chain height final) else None)\<rparr>\<rparr>"

text \<open>
  A client that sends the given envelopes and then hangs up, on a transport that never
  fails.
\<close>

definition toy_stream :: "Envelope list \<Rightarrow> DeliverServer" where
  "toy_stream envelopes =
     \<lparr>Recv_result = (\<lambda>n. if n < length envelopes then Some (Inr (envelopes ! n))
                         else Some (Inl io_EOF)),
      Send_result = (\<lambda>k. None)\<rparr>"

text \<open>A signed request for the channel \<open>mychannel\<close> with the given seek bytes.\<close>

definition toy_request :: "bytes \<Rightarrow> Envelope" where
  "toy_request seek = \<lparr>Payload = 1 # seek, Signature = [1]\<rparr>"

text \<open>A cursor that is always ready and yields a block numbered 7 at every position.\<close>

definition sevens :: Cursor where
  "sevens = (\<lambda>j. (Ready, Some (toy_block 7), Status_SUCCESS))"

text \<open>
  Position \<open>i\<close> of the cursor ends the inner loop by its \<^verbatim>\<open>break\<close>: the handler goes
  on, \<^verbatim>\<open>Next()\<close> returns a block with a header and \<^verbatim>\<open>SUCCESS\<close>, the call number \<open>k\<close>
  of \<^verbatim>\<open>srv.Send\<close> succeeds, and the block's number is the stop number.
\<close>

definition stops_at ::
  "DeliverServer \<Rightarrow> SeekInfo_SeekBehavior \<Rightarrow> 64 word \<Rightarrow> Cursor \<Rightarrow> nat \<Rightarrow> nat \<Rightarrow> bool"
where
  "stops_at srv behavior stopNum cursor k i \<longleftrightarrow>
     await behavior (ReadyChan cursor i) = Go \<and>
     snd (Next cursor i) = Status_SUCCESS \<and>
     Send_result srv k = None \<and>
     (case fst (Next cursor i) of
        None \<Rightarrow> False
      | Some b \<Rightarrow> (case Block_Header b of None \<Rightarrow> False | Some h \<Rightarrow> Number h = stopNum))"

section \<open>Properties of the handler\<close>

lemma return_with_status:
  "return_with (sendStatusReply srv sent status) =
     Some (Exit (Returned (Send_result srv (length sent))), sent @ [DeliverResponse_Status status])"
  by (simp add: return_with_def sendStatusReply_def Send_def)

lemma Handle_envelope_accepted:
  assumes "well_formed_authorized imp ds envelope chain seekInfo start stop"
    and "Iterator (Reader chain) start = (cursor, number)"
  shows "Handle_envelope imp ds srv envelope sent =
    (case stop_number (Reader chain) number stop of
       Stop_before_start \<Rightarrow> return_with (sendStatusReply srv sent Status_BAD_REQUEST)
     | Nil_dereference \<Rightarrow> Some (Exit Panicked, sent)
     | StopNum stopNum \<Rightarrow> deliver_range srv (Behavior seekInfo) stopNum cursor sent)"
  using assms
  by (auto simp: well_formed_authorized_def routed_def Handle_envelope_def
      split: sum.splits option.splits)

lemma Handle_from_envelope:
  assumes "Recv_result srv n = Some (Inr envelope)"
  shows "Handle_from imp ds srv n sent =
    (case Handle_envelope imp ds srv envelope sent of
       None \<Rightarrow> None
     | Some (Exit out, sent') \<Rightarrow> Some (out, sent')
     | Some (Proceed, sent') \<Rightarrow> Handle_from imp ds srv (Suc n) sent')"
  using assms by (subst Handle_from.simps) simp

lemma Handle_from_Exit:
  assumes "Recv_result srv n = Some (Inr envelope)"
    and "Handle_envelope imp ds srv envelope sent = Some (Exit out, sent')"
  shows "Handle_from imp ds srv n sent = Some (out, sent')"
  using assms by (simp add: Handle_from_envelope)

lemma Handle_from_Proceed:
  assumes "Recv_result srv n = Some (Inr envelope)"
    and "Handle_envelope imp ds srv envelope sent = Some (Proceed, sent')"
  shows "Handle_from imp ds srv n sent = Handle_from imp ds srv (Suc n) sent'"
  using assms by (simp add: Handle_from_envelope)

lemma deliver_loop_step:
  assumes "passes srv behavior stopNum cursor (length sent) i"
  shows "deliver_loop srv behavior stopNum cursor i sent =
    deliver_loop srv behavior stopNum cursor (Suc i)
      (sent @ [DeliverResponse_Block (fst (Next cursor i))])"
  using assms
  by (subst deliver_loop.simps)
     (auto simp: passes_def sendBlockReply_def Send_def split: prod.splits option.splits)

lemma deliver_loop_steps:
  assumes "\<forall>j<m. passes srv behavior stopNum cursor (length sent + j) (i + j)"
  shows "deliver_loop srv behavior stopNum cursor i sent =
    deliver_loop srv behavior stopNum cursor (i + m) (sent @ block_replies cursor i m)"
  using assms
proof (induction m)
  case 0
  then show ?case by (simp add: block_replies_def)
next
  case (Suc m)
  then have "deliver_loop srv behavior stopNum cursor i sent =
    deliver_loop srv behavior stopNum cursor (i + m) (sent @ block_replies cursor i m)"
    by simp
  also have "\<dots> = deliver_loop srv behavior stopNum cursor (Suc (i + m))
      ((sent @ block_replies cursor i m) @ [DeliverResponse_Block (fst (Next cursor (i + m)))])"
    using Suc.prems by (intro deliver_loop_step) (simp add: block_replies_def)
  finally show ?case by (simp add: block_replies_def)
qed

lemma deliver_loop_break:
  assumes "stops_at srv behavior stopNum cursor (length sent) i"
  shows "deliver_loop srv behavior stopNum cursor i sent =
    Some (Proceed, sent @ [DeliverResponse_Block (fst (Next cursor i))])"
  using assms
  by (subst deliver_loop.simps)
     (auto simp: stops_at_def sendBlockReply_def Send_def split: prod.splits option.splits)

lemma deliver_loop_some_round_fails:
  assumes "deliver_loop srv behavior stopNum cursor i sent = Some y"
  shows "\<exists>j. \<not> passes srv behavior stopNum cursor (length sent + j) (i + j)"
  using assms
proof (induction srv behavior stopNum cursor i sent y rule: deliver_loop.raw_induct)
  case (1 loop srv behavior stopNum cursor i sent y)
  show ?case
  proof (cases "passes srv behavior stopNum cursor (length sent) i")
    case True
    then have "loop srv behavior stopNum cursor (Suc i)
        (sent @ [DeliverResponse_Block (fst (Next cursor i))]) = Some y"
      using 1(2)
      by (auto simp: passes_def sendBlockReply_def Send_def split: prod.splits option.splits)
    moreover have "deliver_loop srv behavior stopNum cursor (Suc i)
        (sent @ [DeliverResponse_Block (fst (Next cursor i))]) = Some y"
      using deliver_loop_step [OF True] 1(3) by simp
    ultimately obtain j where
      "\<not> passes srv behavior stopNum cursor (length sent + Suc j) (i + Suc j)"
      using 1(1) by fastforce
    then show ?thesis by blast
  next
    case False
    then have "\<not> passes srv behavior stopNum cursor (length sent + 0) (i + 0)"
      by simp
    then show ?thesis by blast
  qed
qed (fact assms)

lemma deliver_loop_forever:
  assumes "\<forall>j. passes srv behavior stopNum cursor (length sent + j) (i + j)"
  shows "deliver_loop srv behavior stopNum cursor i sent = None"
proof (cases "deliver_loop srv behavior stopNum cursor i sent")
  case None
  then show ?thesis .
next
  case (Some y)
  from deliver_loop_some_round_fails [OF this] assms show ?thesis by blast
qed

lemma deliver_loop_rounds:
  assumes "deliver_loop srv behavior stopNum cursor i sent = Some y"
  obtains m where
    "\<forall>j<m. passes srv behavior stopNum cursor (length sent + j) (i + j)"
    "\<not> passes srv behavior stopNum cursor (length sent + m) (i + m)"
    "deliver_loop srv behavior stopNum cursor (i + m) (sent @ block_replies cursor i m) = Some y"
proof -
  define m where "m = (LEAST j. \<not> passes srv behavior stopNum cursor (length sent + j) (i + j))"
  have ex: "\<exists>j. \<not> passes srv behavior stopNum cursor (length sent + j) (i + j)"
    using assms by (rule deliver_loop_some_round_fails)
  have fails: "\<not> passes srv behavior stopNum cursor (length sent + m) (i + m)"
    unfolding m_def using ex by (rule LeastI_ex)
  have before: "\<forall>j<m. passes srv behavior stopNum cursor (length sent + j) (i + j)"
    unfolding m_def using not_less_Least by blast
  from deliver_loop_steps [OF before] assms
  have "deliver_loop srv behavior stopNum cursor (i + m) (sent @ block_replies cursor i m) = Some y"
    by simp
  with before fails show thesis by (rule that)
qed

lemma deliver_loop_last:
  assumes "\<not> passes srv behavior stopNum cursor (length s) k"
    and "deliver_loop srv behavior stopNum cursor k s = Some (c, s')"
  shows "(c = Exit Blocked_on_ReadyChan \<and> s' = s) \<or>
    (\<exists>status. c = Exit (Returned (Send_result srv (length s))) \<and>
       s' = s @ [DeliverResponse_Status status]) \<or>
    (snd (Next cursor k) = Status_SUCCESS \<and>
     s' = s @ [DeliverResponse_Block (fst (Next cursor k))] \<and>
     (if stops_at srv behavior stopNum cursor (length s) k then c = Proceed
      else c = Exit Panicked \<or> (\<exists>e. c = Exit (Returned (Some e)))))"
  using assms(2) assms(1)
  by (subst (asm) deliver_loop.simps)
     (auto simp: passes_def stops_at_def sendBlockReply_def Send_def return_with_status
       split: prod.splits option.splits wait.splits if_splits)

lemma block_replies_Suc:
  "block_replies cursor i (Suc m) =
     block_replies cursor i m @ [DeliverResponse_Block (fst (Next cursor (i + m)))]"
  by (simp add: block_replies_def)

lemma deliver_loop_Proceed_iff:
  "deliver_loop srv behavior stopNum cursor i sent = Some (Proceed, sent') \<longleftrightarrow>
     (\<exists>m. (\<forall>j<m. passes srv behavior stopNum cursor (length sent + j) (i + j)) \<and>
          stops_at srv behavior stopNum cursor (length sent + m) (i + m) \<and>
          sent' = sent @ block_replies cursor i (Suc m))"
proof
  assume loop: "deliver_loop srv behavior stopNum cursor i sent = Some (Proceed, sent')"
  then obtain m where
    before: "\<forall>j<m. passes srv behavior stopNum cursor (length sent + j) (i + j)" and
    fails: "\<not> passes srv behavior stopNum cursor (length sent + m) (i + m)" and
    last: "deliver_loop srv behavior stopNum cursor (i + m) (sent @ block_replies cursor i m) =
      Some (Proceed, sent')"
    by (rule deliver_loop_rounds)
  have len: "length (sent @ block_replies cursor i m) = length sent + m"
    by (simp add: block_replies_def)
  from deliver_loop_last [OF _ last] fails len
  have "stops_at srv behavior stopNum cursor (length sent + m) (i + m) \<and>
      sent' = sent @ block_replies cursor i (Suc m)"
    by (auto simp: block_replies_Suc split: if_splits)
  with before show "\<exists>m. (\<forall>j<m. passes srv behavior stopNum cursor (length sent + j) (i + j)) \<and>
      stops_at srv behavior stopNum cursor (length sent + m) (i + m) \<and>
      sent' = sent @ block_replies cursor i (Suc m)"
    by blast
next
  assume "\<exists>m. (\<forall>j<m. passes srv behavior stopNum cursor (length sent + j) (i + j)) \<and>
      stops_at srv behavior stopNum cursor (length sent + m) (i + m) \<and>
      sent' = sent @ block_replies cursor i (Suc m)"
  then obtain m where
    before: "\<forall>j<m. passes srv behavior stopNum cursor (length sent + j) (i + j)" and
    stops: "stops_at srv behavior stopNum cursor (length sent + m) (i + m)" and
    sent': "sent' = sent @ block_replies cursor i (Suc m)"
    by blast
  have "stops_at srv behavior stopNum cursor (length (sent @ block_replies cursor i m)) (i + m)"
    using stops by (simp add: block_replies_def)
  then have "deliver_loop srv behavior stopNum cursor (i + m) (sent @ block_replies cursor i m) =
      Some (Proceed, sent')"
    unfolding sent' block_replies_Suc by (simp add: deliver_loop_break)
  then show "deliver_loop srv behavior stopNum cursor i sent = Some (Proceed, sent')"
    using deliver_loop_steps [OF before] by simp
qed

lemma consecutive_reply_numbers:
  assumes "consecutive_from cursor number"
    and "\<forall>j<k. snd (Next cursor j) = Status_SUCCESS"
  shows "map reply_number (block_replies cursor 0 k) = map (\<lambda>j. Some (unat number + j)) [0..<k]"
proof -
  have "reply_number (DeliverResponse_Block (fst (Next cursor j))) = Some (unat number + j)"
    if "j < k" for j
  proof -
    from that assms(2) have "snd (Next cursor j) = Status_SUCCESS"
      by simp
    moreover have "snd (Next cursor j) = Status_SUCCESS \<longrightarrow>
        (case fst (Next cursor j) of
           None \<Rightarrow> False
         | Some b \<Rightarrow>
            (case Block_Header b of
               None \<Rightarrow> False
             | Some h \<Rightarrow> unat (Number h) = unat number + j))"
      using assms(1) unfolding consecutive_from_def by blast
    ultimately show ?thesis
      by (auto simp: reply_number_def split: option.splits)
  qed
  then show ?thesis
    by (simp add: block_replies_def)
qed

lemma deliver_loop_responses:
  assumes "deliver_loop srv behavior stopNum cursor 0 sent = Some (c, s')"
  obtains k tail where
    "s' = sent @ block_replies cursor 0 k @ tail"
    "\<forall>j<k. snd (Next cursor j) = Status_SUCCESS"
    "(tail = [] \<and> (c = Proceed \<or> c = Exit Blocked_on_ReadyChan \<or> c = Exit Panicked \<or>
        (\<exists>e. c = Exit (Returned (Some e))))) \<or>
     (\<exists>status. tail = [DeliverResponse_Status status] \<and>
        c = Exit (Returned (Send_result srv (length sent + k))))"
proof -
  from assms obtain m where
    before: "\<forall>j<m. passes srv behavior stopNum cursor (length sent + j) (0 + j)" and
    fails: "\<not> passes srv behavior stopNum cursor (length sent + m) (0 + m)" and
    last: "deliver_loop srv behavior stopNum cursor (0 + m) (sent @ block_replies cursor 0 m) =
      Some (c, s')"
    by (rule deliver_loop_rounds)
  let ?s = "sent @ block_replies cursor 0 m"
  have len: "length ?s = length sent + m"
    by (simp add: block_replies_def)
  have success: "\<forall>j<m. snd (Next cursor j) = Status_SUCCESS"
    using before by (simp add: passes_def)
  from deliver_loop_last [OF _ last] fails len
  consider
      (blocked) "c = Exit Blocked_on_ReadyChan" "s' = ?s"
    | (status) status where "c = Exit (Returned (Send_result srv (length sent + m)))"
        "s' = ?s @ [DeliverResponse_Status status]"
    | (block) "snd (Next cursor m) = Status_SUCCESS"
        "s' = ?s @ [DeliverResponse_Block (fst (Next cursor m))]"
        "c = Proceed \<or> c = Exit Panicked \<or> (\<exists>e. c = Exit (Returned (Some e)))"
    by (auto split: if_splits)
  then show thesis
  proof cases
    case blocked
    then show ?thesis
      using success by (intro that [of m "[]"]) simp_all
  next
    case status
    then show ?thesis
      using success by (intro that [of m "[DeliverResponse_Status status]"]) simp_all
  next
    case block
    then show ?thesis
      using success by (intro that [of "Suc m" "[]"]) (auto simp: block_replies_Suc less_Suc_eq)
  qed
qed

lemma served_request_responses:
  assumes "well_formed_authorized imp ds envelope chain seekInfo start stop"
    and "Iterator (Reader chain) start = (cursor, number)"
    and "consecutive_from cursor number"
    and "Recv_result srv n = Some (Inr envelope)"
    and served: "Handle_envelope imp ds srv envelope sent = Some (c, sent')"
  shows "\<exists>blocks tail.
    sent' = sent @ blocks @ tail \<and>
    map reply_number blocks = map (\<lambda>j. Some (unat number + j)) [0..<length blocks] \<and>
    (tail = [] \<or> (\<exists>status. tail = [DeliverResponse_Status status])) \<and>
    (c = Proceed \<longrightarrow> tail = [DeliverResponse_Status Status_SUCCESS]) \<and>
    (c = Exit (Returned None) \<longrightarrow> tail \<noteq> []) \<and>
    Handle_from imp ds srv n sent =
      (case c of Proceed \<Rightarrow> Handle_from imp ds srv (Suc n) sent'
       | Exit out \<Rightarrow> Some (out, sent'))"
proof -
  have session: "Handle_from imp ds srv n sent =
      (case c of Proceed \<Rightarrow> Handle_from imp ds srv (Suc n) sent'
       | Exit out \<Rightarrow> Some (out, sent'))"
    using Handle_from_envelope [OF assms(4)] served by (simp split: control.splits)
  note body = Handle_envelope_accepted [OF assms(1,2), of srv sent]
  show ?thesis
  proof (cases "stop_number (Reader chain) number stop")
    case Stop_before_start
    then have "c = Exit (Returned (Send_result srv (length sent)))"
      and "sent' = sent @ [] @ [DeliverResponse_Status Status_BAD_REQUEST]"
      using body served by (simp_all add: return_with_status)
    then show ?thesis
      using session by (intro exI [of _ "[]"] exI [of _ "[DeliverResponse_Status Status_BAD_REQUEST]"]) simp
  next
    case Nil_dereference
    then have "c = Exit Panicked" and "sent' = sent @ [] @ []"
      using body served by simp_all
    then show ?thesis
      using session by (intro exI [of _ "[]"]) simp
  next
    case (StopNum stopNum)
    then have range: "deliver_range srv (Behavior seekInfo) stopNum cursor sent = Some (c, sent')"
      using body served by simp
    then obtain c' s' where
      loop: "deliver_loop srv (Behavior seekInfo) stopNum cursor 0 sent = Some (c', s')"
      by (auto simp: deliver_range_def split: option.splits)
    then obtain k tail where
      s': "s' = sent @ block_replies cursor 0 k @ tail" and
      success: "\<forall>j<k. snd (Next cursor j) = Status_SUCCESS" and
      tail: "(tail = [] \<and> (c' = Proceed \<or> c' = Exit Blocked_on_ReadyChan \<or> c' = Exit Panicked \<or>
          (\<exists>e. c' = Exit (Returned (Some e))))) \<or>
        (\<exists>status. tail = [DeliverResponse_Status status] \<and>
          c' = Exit (Returned (Send_result srv (length sent + k))))"
      by (rule deliver_loop_responses)
    have numbers: "map reply_number (block_replies cursor 0 k) =
        map (\<lambda>j. Some (unat number + j)) [0..<length (block_replies cursor 0 k)]"
      using consecutive_reply_numbers [OF assms(3) success] by (simp add: block_replies_def)
    show ?thesis
    proof (cases c')
      case Proceed
      then have "tail = []"
        using tail by auto
      moreover have "sent' = s' @ [DeliverResponse_Status Status_SUCCESS]"
        and "c = Proceed \<or> (\<exists>e. c = Exit (Returned (Some e)))"
        using range loop Proceed
        by (auto simp: deliver_range_def sendStatusReply_def Send_def split: option.splits)
      ultimately show ?thesis
        using s' numbers session
        by (intro exI [of _ "block_replies cursor 0 k"]
            exI [of _ "[DeliverResponse_Status Status_SUCCESS]"]) auto
    next
      case (Exit out)
      then have "c = c'" and "sent' = s'"
        using range loop by (simp_all add: deliver_range_def)
      then show ?thesis
        using s' numbers session tail Exit
        by (intro exI [of _ "block_replies cursor 0 k"] exI [of _ tail]) auto
    qed
  qed
qed

text \<open>
  Claim C1, as stated: after \<^verbatim>\<open>NOT_FOUND\<close> for a request with the behavior
  \<^verbatim>\<open>FAIL_IF_NOT_READY\<close> the session stays open and serves a following request. Line 148
  is \<^verbatim>\<open>return sendStatusReply(srv, cb.Status_NOT_FOUND)\<close>: it leaves \<^verbatim>\<open>Handle\<close>. On a
  ledger with the blocks 0 to 2, a client asks for block 5 without waiting and then for
  all blocks. The first request is well formed and authorized and its cursor is not
  ready; the handler sends \<^verbatim>\<open>NOT_FOUND\<close> and returns, and the second request, which
  alone would be served with three blocks, is never read.
\<close>

theorem not_ready_closes_session:
  "well_formed_authorized toy_imports (toy_server 3 3) (toy_request [3, 5, 3, 5, 1])
      (toy_chain 3 3)
      \<lparr>Start = toy_position 3 5, Stop = toy_position 3 5,
        Behavior = SeekInfo_FAIL_IF_NOT_READY\<rparr>
      \<lparr>Type = Some (SeekPosition_Specified (Some \<lparr>SeekSpecified_Number = 5\<rparr>))\<rparr>
      \<lparr>Type = Some (SeekPosition_Specified (Some \<lparr>SeekSpecified_Number = 5\<rparr>))\<rparr> \<and>
   ReadyChan (fst (Iterator (Reader (toy_chain 3 3))
      \<lparr>Type = Some (SeekPosition_Specified (Some \<lparr>SeekSpecified_Number = 5\<rparr>))\<rparr>)) 0 =
      Stalled \<and>
   Handle toy_imports (toy_server 3 3)
      (toy_stream [toy_request [3, 5, 3, 5, 1], toy_request [1, 0, 2, 0, 0]]) =
      Some (Returned None, [DeliverResponse_Status Status_NOT_FOUND]) \<and>
   Handle toy_imports (toy_server 3 3) (toy_stream [toy_request [1, 0, 2, 0, 0]]) =
      Some (Returned None,
        [DeliverResponse_Block (Some (toy_block 0)), DeliverResponse_Block (Some (toy_block 1)),
         DeliverResponse_Block (Some (toy_block 2)), DeliverResponse_Status Status_SUCCESS])"
  by (simp add: well_formed_authorized_def routed_def
      toy_reader_def toy_start_def stop_number_def
      toy_imports_def toy_seekInfo_def toy_position_def toy_request_def toy_server_def
      toy_chain_def toy_stream_def toy_cursor_def toy_block_def Handle_def Handle_from.simps
      Handle_envelope_def deliver_range_def deliver_loop.simps await_def ReadyChan_def
      Next_def sendBlockReply_def sendStatusReply_def Send_def return_with_def)

text \<open>
  Claim C1, amended. For a well-formed, authorized request with the behavior
  \<^verbatim>\<open>FAIL_IF_NOT_READY\<close>, once the handler has delivered the blocks of the first \<open>i\<close>
  positions of the cursor (\<open>i\<close> may be 0) and no block is ready at position \<open>i\<close>, it sends
  \<^verbatim>\<open>NOT_FOUND\<close> without waiting for the ready channel and returns: the request and the
  session end together, and no further envelope is read.
\<close>

theorem not_ready_is_not_found:
  assumes "well_formed_authorized imp ds envelope chain seekInfo start stop"
    and "Behavior seekInfo = SeekInfo_FAIL_IF_NOT_READY"
    and "Iterator (Reader chain) start = (cursor, number)"
    and "stop_number (Reader chain) number stop = StopNum stopNum"
    and "\<forall>j<i. passes srv (Behavior seekInfo) stopNum cursor (length sent + j) j"
    and "ReadyChan cursor i \<noteq> Ready"
    and "Recv_result srv n = Some (Inr envelope)"
  shows "Handle_from imp ds srv n sent =
    Some (Returned (Send_result srv (length sent + i)),
          sent @ block_replies cursor 0 i @ [DeliverResponse_Status Status_NOT_FOUND])"
proof -
  let ?sent = "sent @ block_replies cursor 0 i"
  have "deliver_loop srv (Behavior seekInfo) stopNum cursor 0 sent =
      deliver_loop srv (Behavior seekInfo) stopNum cursor (0 + i) ?sent"
    using assms(5) by (intro deliver_loop_steps) simp
  also have "\<dots> = Some (Exit (Returned (Send_result srv (length sent + i))),
      ?sent @ [DeliverResponse_Status Status_NOT_FOUND])"
    using assms(2,6)
    by (subst deliver_loop.simps)
       (simp add: await_def return_with_status block_replies_def)
  finally have "deliver_range srv (Behavior seekInfo) stopNum cursor sent =
      Some (Exit (Returned (Send_result srv (length sent + i))),
        ?sent @ [DeliverResponse_Status Status_NOT_FOUND])"
    by (simp add: deliver_range_def)
  then have "Handle_envelope imp ds srv envelope sent =
      Some (Exit (Returned (Send_result srv (length sent + i))),
        ?sent @ [DeliverResponse_Status Status_NOT_FOUND])"
    using Handle_envelope_accepted [OF assms(1,3)] assms(4) by simp
  then show ?thesis
    using Handle_from_Exit [OF assms(7)] by simp
qed

theorem not_ready_is_not_found_witness:
  "Handle toy_imports (toy_server 10 11)
      (toy_stream [toy_request [3, 9, 3, 10, 1], toy_request [1, 0, 2, 0, 0]]) =
     Some (Returned None,
       [DeliverResponse_Block (Some (toy_block 9)), DeliverResponse_Status Status_NOT_FOUND])"
proof -
  let ?start = "\<lparr>Type = Some (SeekPosition_Specified (Some \<lparr>SeekSpecified_Number = 9\<rparr>))\<rparr>"
  let ?stop = "\<lparr>Type = Some (SeekPosition_Specified (Some \<lparr>SeekSpecified_Number = 10\<rparr>))\<rparr>"
  let ?seekInfo = "\<lparr>Start = Some ?start, Stop = Some ?stop,
    Behavior = SeekInfo_FAIL_IF_NOT_READY\<rparr>"
  let ?srv = "toy_stream [toy_request [3, 9, 3, 10, 1], toy_request [1, 0, 2, 0, 0]]"
  have request: "well_formed_authorized toy_imports (toy_server 10 11)
      (toy_request [3, 9, 3, 10, 1]) (toy_chain 10 11) ?seekInfo ?start ?stop"
    by (simp add: well_formed_authorized_def routed_def toy_imports_def toy_request_def
        toy_server_def toy_seekInfo_def toy_position_def)
  have behavior: "Behavior ?seekInfo = SeekInfo_FAIL_IF_NOT_READY"
    by simp
  have iterator: "Iterator (Reader (toy_chain 10 11)) ?start = (toy_cursor 10 11 9, 9)"
    by (simp add: toy_chain_def toy_reader_def toy_start_def)
  have stop: "stop_number (Reader (toy_chain 10 11)) 9 ?stop = StopNum 10"
    by (simp add: stop_number_def)
  have delivered: "\<forall>j<1. passes ?srv (Behavior ?seekInfo) 10 (toy_cursor 10 11 9)
      (length ([] :: DeliverResponse list) + j) j"
    by (simp add: passes_def await_def ReadyChan_def Next_def toy_cursor_def toy_block_def
        toy_stream_def)
  have not_ready: "ReadyChan (toy_cursor 10 11 9) 1 \<noteq> Ready"
    by (simp add: ReadyChan_def toy_cursor_def)
  have received: "Recv_result ?srv 0 = Some (Inr (toy_request [3, 9, 3, 10, 1]))"
    by (simp add: toy_stream_def)
  show ?thesis
    using not_ready_is_not_found
      [OF request behavior iterator stop delivered not_ready received]
    by (simp add: Handle_def block_replies_def Next_def toy_cursor_def toy_stream_def)
qed

text \<open>
  Claim C2, as stated: every malformed message (payload that does not unmarshal, absent
  header, unparsable channel header, unparsable seek request, or seek request without
  start or stop) is answered with one \<^verbatim>\<open>BAD_REQUEST\<close>. The seek request is only parsed
  at lines 113 to 122, after the channel lookup and the signature filter. An envelope
  for an unknown channel whose seek request does not parse is answered with
  \<^verbatim>\<open>NOT_FOUND\<close>, and an envelope with the same data that the filter does not forward is
  answered with \<^verbatim>\<open>FORBIDDEN\<close>.
\<close>

theorem malformed_seekInfo_not_always_bad_request:
  "malformed_seekInfo toy_imports
      \<lparr>Header = Some \<lparr>ChannelHeader = [2], SignatureHeader = []\<rparr>, Data = [9]\<rparr> \<and>
   UnmarshalPayload toy_imports [2, 9] =
      Inr \<lparr>Header = Some \<lparr>ChannelHeader = [2], SignatureHeader = []\<rparr>, Data = [9]\<rparr> \<and>
   Handle toy_imports (toy_server 3 3) (toy_stream [\<lparr>Payload = [2, 9], Signature = [1]\<rparr>]) =
      Some (Returned None, [DeliverResponse_Status Status_NOT_FOUND]) \<and>
   malformed_seekInfo toy_imports
      \<lparr>Header = Some \<lparr>ChannelHeader = [1], SignatureHeader = []\<rparr>, Data = [9]\<rparr> \<and>
   UnmarshalPayload toy_imports [1, 9] =
      Inr \<lparr>Header = Some \<lparr>ChannelHeader = [1], SignatureHeader = []\<rparr>, Data = [9]\<rparr> \<and>
   Handle toy_imports (toy_server 3 3) (toy_stream [\<lparr>Payload = [1, 9], Signature = [0]\<rparr>]) =
      Some (Returned None, [DeliverResponse_Status Status_FORBIDDEN])"
  by (simp add: malformed_seekInfo_def toy_imports_def toy_seekInfo_def toy_server_def
      toy_stream_def Handle_def Handle_from.simps Handle_envelope_def return_with_status)

text \<open>
  Claim C2, amended. A message whose envelope is malformed (payload that does not
  unmarshal, absent header, unparsable channel header), or whose seek request is
  malformed (it does not unmarshal, or lacks its start or stop position) while the
  envelope names a known channel and passes the signature filter, is answered with
  exactly one \<^verbatim>\<open>BAD_REQUEST\<close>, after which the handler returns; no block is sent.
\<close>

theorem malformed_request_is_bad_request:
  assumes "Recv_result srv n = Some (Inr envelope)"
    and "malformed_envelope imp envelope \<or>
         (routed imp ds envelope payload chain \<and>
          sigfilter_Apply imp (PolicyManager chain) envelope = Forward \<and>
          malformed_seekInfo imp payload)"
  shows "Handle_from imp ds srv n sent =
    Some (Returned (Send_result srv (length sent)),
          sent @ [DeliverResponse_Status Status_BAD_REQUEST])"
proof -
  have "Handle_envelope imp ds srv envelope sent =
      Some (Exit (Returned (Send_result srv (length sent))),
            sent @ [DeliverResponse_Status Status_BAD_REQUEST])"
    using assms(2)
  proof
    assume "malformed_envelope imp envelope"
    then show ?thesis
      by (auto simp: malformed_envelope_def Handle_envelope_def return_with_status
          split: sum.splits option.splits)
  next
    assume "routed imp ds envelope payload chain \<and>
          sigfilter_Apply imp (PolicyManager chain) envelope = Forward \<and>
          malformed_seekInfo imp payload"
    then show ?thesis
      by (auto simp: routed_def malformed_seekInfo_def Handle_envelope_def return_with_status
          split: sum.splits option.splits)
  qed
  then show ?thesis
    using assms(1) by (rule Handle_from_Exit [rotated])
qed

theorem malformed_request_is_bad_request_witness:
  "Handle toy_imports (toy_server 3 3) (toy_stream [\<lparr>Payload = [0, 9], Signature = [1]\<rparr>]) =
      Some (Returned None, [DeliverResponse_Status Status_BAD_REQUEST]) \<and>
   Handle toy_imports (toy_server 3 3) (toy_stream [toy_request [1, 0, 0, 0, 0]]) =
      Some (Returned None, [DeliverResponse_Status Status_BAD_REQUEST])"
  using malformed_request_is_bad_request
     [of "toy_stream [\<lparr>Payload = [0, 9], Signature = [1]\<rparr>]" 0
      "\<lparr>Payload = [0, 9], Signature = [1]\<rparr>" toy_imports "toy_server 3 3"
      undefined undefined "[]"]
    malformed_request_is_bad_request
     [of "toy_stream [toy_request [1, 0, 0, 0, 0]]" 0
      "toy_request [1, 0, 0, 0, 0]" toy_imports "toy_server 3 3"
      "\<lparr>Header = Some \<lparr>ChannelHeader = [1], SignatureHeader = []\<rparr>, Data = [1, 0, 0, 0, 0]\<rparr>"
      "toy_chain 3 3" "[]"]
  by (simp add: malformed_envelope_def malformed_seekInfo_def routed_def toy_imports_def
      toy_seekInfo_def toy_position_def toy_request_def toy_server_def toy_stream_def
      Handle_def)

text \<open>
  Claim C3, as stated: the stop position \<open>Oldest\<close> resolves to the oldest retained bound.
  Line 130 assigns the number the iterator returned for the start position instead. On
  a ledger that holds the blocks 0 to 9, a request from \<open>Specified 5\<close> to \<open>Oldest\<close> has the
  stop number 5 while the oldest retained number is 0, and the handler delivers block 5
  and reports \<^verbatim>\<open>SUCCESS\<close>.
\<close>

theorem oldest_stop_is_not_oldest_retained:
  "Iterator (toy_reader 10 10)
      \<lparr>Type = Some (SeekPosition_Specified (Some \<lparr>SeekSpecified_Number = 5\<rparr>))\<rparr> =
      (toy_cursor 10 10 5, 5) \<and>
   stop_number (toy_reader 10 10) 5 \<lparr>Type = Some SeekPosition_Oldest\<rparr> = StopNum 5 \<and>
   oldest_retained (toy_reader 10 10) = 0 \<and>
   Handle toy_imports (toy_server 10 10) (toy_stream [toy_request [3, 5, 1, 0, 1]]) =
     Some (Returned None,
       [DeliverResponse_Block (Some (toy_block 5)), DeliverResponse_Status Status_SUCCESS])"
proof -
  have "Iterator (toy_reader 10 10)
      \<lparr>Type = Some (SeekPosition_Specified (Some \<lparr>SeekSpecified_Number = 5\<rparr>))\<rparr> =
      (toy_cursor 10 10 5, 5)"
    by (simp add: toy_reader_def toy_start_def)
  moreover have "stop_number (toy_reader 10 10) 5 \<lparr>Type = Some SeekPosition_Oldest\<rparr> =
      StopNum 5"
    by (simp add: stop_number_def)
  moreover have "oldest_retained (toy_reader 10 10) = 0"
    by (simp add: oldest_retained_def toy_reader_def toy_start_def)
  moreover have "Handle toy_imports (toy_server 10 10)
      (toy_stream [toy_request [3, 5, 1, 0, 1]]) =
      Some (Returned None,
        [DeliverResponse_Block (Some (toy_block 5)), DeliverResponse_Status Status_SUCCESS])"
    by (simp add: toy_reader_def toy_start_def stop_number_def
        toy_imports_def toy_seekInfo_def toy_position_def toy_request_def toy_server_def
        toy_chain_def toy_stream_def toy_cursor_def toy_block_def Handle_def Handle_from.simps
        Handle_envelope_def deliver_range_def deliver_loop.simps await_def ReadyChan_def
        Next_def sendBlockReply_def sendStatusReply_def Send_def)
  ultimately show ?thesis
    by simp
qed

text \<open>
  Claim C3, amended. For a well-formed, authorized request, with \<open>number\<close> the number
  returned by opening the iterator at the start position, the stop number is computed by
  case on the type of the stop position: \<open>Oldest\<close> yields \<open>number\<close> itself, \<open>Newest\<close>
  yields the height minus one, and \<open>Specified n\<close> with \<open>n\<close> not below \<open>number\<close> yields \<open>n\<close>,
  however large \<open>n\<close> is compared with the height. The cursor loop then runs with the
  stop number so computed.
\<close>

theorem stop_number_by_case:
  assumes "well_formed_authorized imp ds envelope chain seekInfo start stop"
    and "Iterator (Reader chain) start = (cursor, number)"
  shows "(Type stop = Some SeekPosition_Oldest \<longrightarrow>
            stop_number (Reader chain) number stop = StopNum number) \<and>
         (Type stop = Some SeekPosition_Newest \<longrightarrow>
            stop_number (Reader chain) number stop = StopNum (Height (Reader chain) - 1)) \<and>
         (\<forall>s. Type stop = Some (SeekPosition_Specified (Some s)) \<and>
              number \<le> SeekSpecified_Number s \<longrightarrow>
            stop_number (Reader chain) number stop = StopNum (SeekSpecified_Number s)) \<and>
         (\<forall>stopNum. stop_number (Reader chain) number stop = StopNum stopNum \<longrightarrow>
            Handle_envelope imp ds srv envelope sent =
              deliver_range srv (Behavior seekInfo) stopNum cursor sent)"
proof -
  have "\<forall>stopNum. stop_number (Reader chain) number stop = StopNum stopNum \<longrightarrow>
      Handle_envelope imp ds srv envelope sent =
        deliver_range srv (Behavior seekInfo) stopNum cursor sent"
    using Handle_envelope_accepted [OF assms] by simp
  moreover have "\<forall>s. Type stop = Some (SeekPosition_Specified (Some s)) \<and>
        number \<le> SeekSpecified_Number s \<longrightarrow>
      stop_number (Reader chain) number stop = StopNum (SeekSpecified_Number s)"
    by (simp add: stop_number_def not_less [symmetric])
  ultimately show ?thesis
    by (simp add: stop_number_def)
qed

theorem stop_number_by_case_witness:
  "stop_number (Reader (toy_chain 10 10)) 5 \<lparr>Type = Some SeekPosition_Oldest\<rparr> = StopNum 5 \<and>
   stop_number (Reader (toy_chain 10 10)) 5 \<lparr>Type = Some SeekPosition_Newest\<rparr> = StopNum 9 \<and>
   stop_number (Reader (toy_chain 10 10)) 5
      \<lparr>Type = Some (SeekPosition_Specified (Some \<lparr>SeekSpecified_Number = 200\<rparr>))\<rparr> =
      StopNum 200 \<and>
   Handle_envelope toy_imports (toy_server 10 10) (toy_stream [])
      (toy_request [3, 5, 3, 200, 0]) [] =
     deliver_range (toy_stream []) SeekInfo_BLOCK_UNTIL_READY 200 (toy_cursor 10 10 5) []"
  using stop_number_by_case
     [of toy_imports "toy_server 10 10" "toy_request [3, 5, 1, 0, 0]" "toy_chain 10 10"
      "\<lparr>Start = toy_position 3 5, Stop = toy_position 1 0,
        Behavior = SeekInfo_BLOCK_UNTIL_READY\<rparr>"
      "\<lparr>Type = Some (SeekPosition_Specified (Some \<lparr>SeekSpecified_Number = 5\<rparr>))\<rparr>"
      "\<lparr>Type = Some SeekPosition_Oldest\<rparr>" "toy_cursor 10 10 5" 5 "toy_stream []" "[]"]
    stop_number_by_case
     [of toy_imports "toy_server 10 10" "toy_request [3, 5, 2, 0, 0]" "toy_chain 10 10"
      "\<lparr>Start = toy_position 3 5, Stop = toy_position 2 0,
        Behavior = SeekInfo_BLOCK_UNTIL_READY\<rparr>"
      "\<lparr>Type = Some (SeekPosition_Specified (Some \<lparr>SeekSpecified_Number = 5\<rparr>))\<rparr>"
      "\<lparr>Type = Some SeekPosition_Newest\<rparr>" "toy_cursor 10 10 5" 5 "toy_stream []" "[]"]
    stop_number_by_case
     [of toy_imports "toy_server 10 10" "toy_request [3, 5, 3, 200, 0]" "toy_chain 10 10"
      "\<lparr>Start = toy_position 3 5, Stop = toy_position 3 200,
        Behavior = SeekInfo_BLOCK_UNTIL_READY\<rparr>"
      "\<lparr>Type = Some (SeekPosition_Specified (Some \<lparr>SeekSpecified_Number = 5\<rparr>))\<rparr>"
      "\<lparr>Type = Some (SeekPosition_Specified (Some \<lparr>SeekSpecified_Number = 200\<rparr>))\<rparr>"
      "toy_cursor 10 10 5" 5 "toy_stream []" "[]"]
  by (simp add: well_formed_authorized_def routed_def toy_imports_def toy_request_def
      toy_server_def toy_chain_def toy_reader_def toy_seekInfo_def toy_position_def
      toy_start_def)

text \<open>
  Claim C4. A well-formed, authorized seek request whose stop position is
  \<open>Specified n\<close> with \<open>n\<close> strictly below the number at which the iterator starts is
  answered with \<^verbatim>\<open>BAD_REQUEST\<close> and the handler returns: the response is the only one
  added to the log, so no block is sent, and the result does not depend on the cursor,
  which is opened and never read.
\<close>

theorem stop_before_start_is_bad_request:
  assumes "well_formed_authorized imp ds envelope chain seekInfo start stop"
    and "Iterator (Reader chain) start = (cursor, number)"
    and "Type stop = Some (SeekPosition_Specified (Some s))"
    and "SeekSpecified_Number s < number"
    and "Recv_result srv n = Some (Inr envelope)"
  shows "Handle_from imp ds srv n sent =
    Some (Returned (Send_result srv (length sent)),
          sent @ [DeliverResponse_Status Status_BAD_REQUEST])"
proof -
  have "stop_number (Reader chain) number stop = Stop_before_start"
    using assms(3,4) by (simp add: stop_number_def)
  then have "Handle_envelope imp ds srv envelope sent =
      Some (Exit (Returned (Send_result srv (length sent))),
            sent @ [DeliverResponse_Status Status_BAD_REQUEST])"
    using Handle_envelope_accepted [OF assms(1,2)] by (simp add: return_with_status)
  then show ?thesis
    using assms(5) by (rule Handle_from_Exit [rotated])
qed

theorem stop_before_start_is_bad_request_witness:
  "Handle toy_imports (toy_server 10 10) (toy_stream [toy_request [3, 5, 3, 2, 0]]) =
     Some (Returned None, [DeliverResponse_Status Status_BAD_REQUEST])"
  using stop_before_start_is_bad_request
     [of toy_imports "toy_server 10 10" "toy_request [3, 5, 3, 2, 0]" "toy_chain 10 10"
      "\<lparr>Start = toy_position 3 5, Stop = toy_position 3 2,
        Behavior = SeekInfo_BLOCK_UNTIL_READY\<rparr>"
      "\<lparr>Type = Some (SeekPosition_Specified (Some \<lparr>SeekSpecified_Number = 5\<rparr>))\<rparr>"
      "\<lparr>Type = Some (SeekPosition_Specified (Some \<lparr>SeekSpecified_Number = 2\<rparr>))\<rparr>"
      "toy_cursor 10 10 5" 5 "\<lparr>SeekSpecified_Number = 2\<rparr>"
      "toy_stream [toy_request [3, 5, 3, 2, 0]]" 0 "[]"]
  by (simp add: well_formed_authorized_def routed_def toy_imports_def toy_request_def
      toy_server_def toy_chain_def toy_reader_def toy_seekInfo_def toy_position_def
      toy_start_def toy_stream_def Handle_def)

text \<open>
  Claim C5. A well-formed, authorized request resolves to the range from \<open>s\<close> to \<open>s\<close>, the
  cursor lets the handler go on at its first position and yields a block numbered \<open>s\<close>
  with \<^verbatim>\<open>SUCCESS\<close>, and the transport accepts the two responses. Then the handler
  sends that block, then the status \<^verbatim>\<open>SUCCESS\<close>, nothing else, and is back at the top
  of the outer loop, about to receive the next envelope of the same stream.
\<close>

theorem single_block_range:
  assumes "well_formed_authorized imp ds envelope chain seekInfo start stop"
    and "Iterator (Reader chain) start = (cursor, s)"
    and "stop_number (Reader chain) s stop = StopNum s"
    and "await (Behavior seekInfo) (ReadyChan cursor 0) = Go"
    and "Next cursor 0 = (Some b, Status_SUCCESS)"
    and "Block_Header b = Some h"
    and "Number h = s"
    and "Send_result srv (length sent) = None"
    and "Send_result srv (Suc (length sent)) = None"
    and "Recv_result srv n = Some (Inr envelope)"
  shows "Handle_envelope imp ds srv envelope sent =
      Some (Proceed,
        sent @ [DeliverResponse_Block (Some b), DeliverResponse_Status Status_SUCCESS]) \<and>
    Handle_from imp ds srv n sent =
      Handle_from imp ds srv (Suc n)
        (sent @ [DeliverResponse_Block (Some b), DeliverResponse_Status Status_SUCCESS])"
proof -
  have "deliver_loop srv (Behavior seekInfo) s cursor 0 sent =
      Some (Proceed, sent @ [DeliverResponse_Block (Some b)])"
    using assms(4-8) by (subst deliver_loop.simps) (simp add: sendBlockReply_def Send_def)
  then have "deliver_range srv (Behavior seekInfo) s cursor sent =
      Some (Proceed,
        sent @ [DeliverResponse_Block (Some b), DeliverResponse_Status Status_SUCCESS])"
    using assms(9) by (simp add: deliver_range_def sendStatusReply_def Send_def)
  then have body: "Handle_envelope imp ds srv envelope sent =
      Some (Proceed,
        sent @ [DeliverResponse_Block (Some b), DeliverResponse_Status Status_SUCCESS])"
    using Handle_envelope_accepted [OF assms(1,2)] assms(3) by simp
  then show ?thesis
    using Handle_from_Proceed [OF assms(10) body] by simp
qed

theorem single_block_range_witness:
  "Handle_envelope toy_imports (toy_server 10 10) (toy_stream [toy_request [3, 5, 3, 5, 1]])
      (toy_request [3, 5, 3, 5, 1]) [] =
      Some (Proceed,
        [DeliverResponse_Block (Some (toy_block 5)), DeliverResponse_Status Status_SUCCESS]) \<and>
   Handle_from toy_imports (toy_server 10 10) (toy_stream [toy_request [3, 5, 3, 5, 1]]) 0 [] =
   Handle_from toy_imports (toy_server 10 10) (toy_stream [toy_request [3, 5, 3, 5, 1]]) (Suc 0)
      [DeliverResponse_Block (Some (toy_block 5)), DeliverResponse_Status Status_SUCCESS]"
proof -
  let ?position = "\<lparr>Type = Some (SeekPosition_Specified (Some \<lparr>SeekSpecified_Number = 5\<rparr>))\<rparr>"
  let ?seekInfo = "\<lparr>Start = Some ?position, Stop = Some ?position,
    Behavior = SeekInfo_FAIL_IF_NOT_READY\<rparr>"
  let ?srv = "toy_stream [toy_request [3, 5, 3, 5, 1]]"
  have request: "well_formed_authorized toy_imports (toy_server 10 10)
      (toy_request [3, 5, 3, 5, 1]) (toy_chain 10 10) ?seekInfo ?position ?position"
    by (simp add: well_formed_authorized_def routed_def toy_imports_def toy_request_def
        toy_server_def toy_seekInfo_def toy_position_def)
  have iterator: "Iterator (Reader (toy_chain 10 10)) ?position = (toy_cursor 10 10 5, 5)"
    by (simp add: toy_chain_def toy_reader_def toy_start_def)
  have stop: "stop_number (Reader (toy_chain 10 10)) 5 ?position = StopNum 5"
    by (simp add: stop_number_def)
  have ready: "await (Behavior ?seekInfo) (ReadyChan (toy_cursor 10 10 5) 0) = Go"
    by (simp add: await_def ReadyChan_def toy_cursor_def)
  have pulled: "Next (toy_cursor 10 10 5) 0 = (Some (toy_block 5), Status_SUCCESS)"
    by (simp add: Next_def toy_cursor_def)
  have header: "Block_Header (toy_block 5) = Some \<lparr>Number = 5\<rparr>"
    by (simp add: toy_block_def)
  have number: "Number \<lparr>Number = 5\<rparr> = 5"
    by simp
  have first_send: "Send_result ?srv (length ([] :: DeliverResponse list)) = None"
    by (simp add: toy_stream_def)
  have second_send: "Send_result ?srv (Suc (length ([] :: DeliverResponse list))) = None"
    by (simp add: toy_stream_def)
  have received: "Recv_result ?srv 0 = Some (Inr (toy_request [3, 5, 3, 5, 1]))"
    by (simp add: toy_stream_def)
  show ?thesis
    using single_block_range [OF request iterator stop ready pulled header number
        first_send second_send received]
    by simp
qed

text \<open>
  Claim C6. When an envelope is routed to a chain (its payload and channel header parse
  and the channel exists) and the signature filter answers anything but \<open>Forward\<close>, the
  handler sends \<^verbatim>\<open>FORBIDDEN\<close> and returns. The status is the only response added to the
  log, so no block is sent, whatever the seek request in the payload says.
\<close>

theorem denied_request_is_forbidden:
  assumes "routed imp ds envelope payload chain"
    and "sigfilter_Apply imp (PolicyManager chain) envelope \<noteq> Forward"
    and "Recv_result srv n = Some (Inr envelope)"
  shows "Handle_from imp ds srv n sent =
    Some (Returned (Send_result srv (length sent)),
          sent @ [DeliverResponse_Status Status_FORBIDDEN])"
proof -
  have "Handle_envelope imp ds srv envelope sent =
      Some (Exit (Returned (Send_result srv (length sent))),
            sent @ [DeliverResponse_Status Status_FORBIDDEN])"
    using assms(1,2)
    by (auto simp: routed_def Handle_envelope_def return_with_status
        split: sum.splits option.splits)
  then show ?thesis
    using assms(3) by (rule Handle_from_Exit [rotated])
qed

theorem denied_request_is_forbidden_witness:
  "Handle toy_imports (toy_server 3 3)
      (toy_stream [\<lparr>Payload = [1, 1, 0, 2, 0, 0], Signature = [0]\<rparr>]) =
     Some (Returned None, [DeliverResponse_Status Status_FORBIDDEN])"
  using denied_request_is_forbidden
     [of toy_imports "toy_server 3 3" "\<lparr>Payload = [1, 1, 0, 2, 0, 0], Signature = [0]\<rparr>"
      "\<lparr>Header = Some \<lparr>ChannelHeader = [1], SignatureHeader = []\<rparr>, Data = [1, 0, 2, 0, 0]\<rparr>"
      "toy_chain 3 3"
      "toy_stream [\<lparr>Payload = [1, 1, 0, 2, 0, 0], Signature = [0]\<rparr>]" 0 "[]"]
  by (simp add: routed_def toy_imports_def toy_server_def toy_stream_def Handle_def)

text \<open>
  Claim C7. For a well-formed, authorized request whose cursor yields consecutive block
  numbers from the number the iterator returned, the responses the handler adds to the
  log while it serves the request are block responses numbered consecutively from that
  number, in increasing order and without gaps, followed by at most one status
  response, and nothing after it. Whenever the handler goes on to receive the next
  envelope, and whenever it returns nil, the status response is there; when it goes on
  to the next envelope the status is \<^verbatim>\<open>SUCCESS\<close>. The status is missing only when the
  handler stays blocked on the ready channel, panics, or returns a transport error.
  The order of the blocks does not depend on the request ever being finished: after
  any number \<open>m\<close> of rounds of the inner loop, the responses added so far are the blocks
  of the first \<open>m\<close> positions of the cursor, numbered consecutively.
\<close>

theorem responses_of_one_request:
  assumes "well_formed_authorized imp ds envelope chain seekInfo start stop"
    and "Iterator (Reader chain) start = (cursor, number)"
    and "consecutive_from cursor number"
    and "Recv_result srv n = Some (Inr envelope)"
  shows "(\<forall>c sent'. Handle_envelope imp ds srv envelope sent = Some (c, sent') \<longrightarrow>
      (\<exists>blocks tail.
        sent' = sent @ blocks @ tail \<and>
        map reply_number blocks = map (\<lambda>j. Some (unat number + j)) [0..<length blocks] \<and>
        (tail = [] \<or> (\<exists>status. tail = [DeliverResponse_Status status])) \<and>
        (c = Proceed \<longrightarrow> tail = [DeliverResponse_Status Status_SUCCESS]) \<and>
        (c = Exit (Returned None) \<longrightarrow> tail \<noteq> []) \<and>
        Handle_from imp ds srv n sent =
          (case c of Proceed \<Rightarrow> Handle_from imp ds srv (Suc n) sent'
           | Exit out \<Rightarrow> Some (out, sent')))) \<and>
    (\<forall>stopNum m.
      stop_number (Reader chain) number stop = StopNum stopNum \<and>
      (\<forall>j<m. passes srv (Behavior seekInfo) stopNum cursor (length sent + j) j) \<longrightarrow>
        deliver_loop srv (Behavior seekInfo) stopNum cursor 0 sent =
          deliver_loop srv (Behavior seekInfo) stopNum cursor m
            (sent @ block_replies cursor 0 m) \<and>
        map reply_number (block_replies cursor 0 m) =
          map (\<lambda>j. Some (unat number + j)) [0..<m])"
proof (intro conjI allI impI)
  fix stopNum m
  assume rounds: "stop_number (Reader chain) number stop = StopNum stopNum \<and>
    (\<forall>j<m. passes srv (Behavior seekInfo) stopNum cursor (length sent + j) j)"
  then have "\<forall>j<m. passes srv (Behavior seekInfo) stopNum cursor (length sent + j) (0 + j)"
    by simp
  from deliver_loop_steps [OF this]
  show "deliver_loop srv (Behavior seekInfo) stopNum cursor 0 sent =
      deliver_loop srv (Behavior seekInfo) stopNum cursor m (sent @ block_replies cursor 0 m)"
    by simp
  have "\<forall>j<m. snd (Next cursor j) = Status_SUCCESS"
    using rounds by (simp add: passes_def)
  with assms(3) show "map reply_number (block_replies cursor 0 m) =
      map (\<lambda>j. Some (unat number + j)) [0..<m]"
    by (rule consecutive_reply_numbers)
next
  fix c sent'
  assume served: "Handle_envelope imp ds srv envelope sent = Some (c, sent')"
  show "\<exists>blocks tail.
    sent' = sent @ blocks @ tail \<and>
    map reply_number blocks = map (\<lambda>j. Some (unat number + j)) [0..<length blocks] \<and>
    (tail = [] \<or> (\<exists>status. tail = [DeliverResponse_Status status])) \<and>
    (c = Proceed \<longrightarrow> tail = [DeliverResponse_Status Status_SUCCESS]) \<and>
    (c = Exit (Returned None) \<longrightarrow> tail \<noteq> []) \<and>
    Handle_from imp ds srv n sent =
      (case c of Proceed \<Rightarrow> Handle_from imp ds srv (Suc n) sent'
       | Exit out \<Rightarrow> Some (out, sent'))"
    using assms served by (rule served_request_responses)
qed

theorem responses_of_one_request_witness:
  "(\<exists>blocks tail.
    [DeliverResponse_Block (Some (toy_block 5)), DeliverResponse_Block (Some (toy_block 6)),
     DeliverResponse_Block (Some (toy_block 7)), DeliverResponse_Status Status_SUCCESS] =
      [] @ blocks @ tail \<and>
    map reply_number blocks = map (\<lambda>j. Some (unat (5 :: 64 word) + j)) [0..<length blocks] \<and>
    (tail = [] \<or> (\<exists>status. tail = [DeliverResponse_Status status])) \<and>
    (Proceed = Proceed \<longrightarrow> tail = [DeliverResponse_Status Status_SUCCESS]) \<and>
    (Proceed = Exit (Returned None) \<longrightarrow> tail \<noteq> []) \<and>
    Handle_from toy_imports (toy_server 10 10) (toy_stream [toy_request [3, 5, 3, 7, 1]]) 0 [] =
      (case Proceed of
         Proceed \<Rightarrow>
           Handle_from toy_imports (toy_server 10 10) (toy_stream [toy_request [3, 5, 3, 7, 1]])
             (Suc 0)
             [DeliverResponse_Block (Some (toy_block 5)),
              DeliverResponse_Block (Some (toy_block 6)),
              DeliverResponse_Block (Some (toy_block 7)),
              DeliverResponse_Status Status_SUCCESS]
       | Exit out \<Rightarrow>
           Some (out,
             [DeliverResponse_Block (Some (toy_block 5)),
              DeliverResponse_Block (Some (toy_block 6)),
              DeliverResponse_Block (Some (toy_block 7)),
              DeliverResponse_Status Status_SUCCESS]))) \<and>
   deliver_loop (toy_stream [toy_request [3, 5, 3, 7, 1]]) SeekInfo_FAIL_IF_NOT_READY 7
      (toy_cursor 10 10 5) 0 [] =
     deliver_loop (toy_stream [toy_request [3, 5, 3, 7, 1]]) SeekInfo_FAIL_IF_NOT_READY 7
      (toy_cursor 10 10 5) 2 (block_replies (toy_cursor 10 10 5) 0 2) \<and>
   map reply_number (block_replies (toy_cursor 10 10 5) 0 2) = [Some 5, Some 6]"
proof -
  let ?start = "\<lparr>Type = Some (SeekPosition_Specified (Some \<lparr>SeekSpecified_Number = 5\<rparr>))\<rparr>"
  let ?stop = "\<lparr>Type = Some (SeekPosition_Specified (Some \<lparr>SeekSpecified_Number = 7\<rparr>))\<rparr>"
  let ?seekInfo = "\<lparr>Start = Some ?start, Stop = Some ?stop,
    Behavior = SeekInfo_FAIL_IF_NOT_READY\<rparr>"
  let ?srv = "toy_stream [toy_request [3, 5, 3, 7, 1]]"
  have request: "well_formed_authorized toy_imports (toy_server 10 10)
      (toy_request [3, 5, 3, 7, 1]) (toy_chain 10 10) ?seekInfo ?start ?stop"
    by (simp add: well_formed_authorized_def routed_def toy_imports_def toy_request_def
        toy_server_def toy_seekInfo_def toy_position_def)
  have iterator: "Iterator (Reader (toy_chain 10 10)) ?start = (toy_cursor 10 10 5, 5)"
    by (simp add: toy_chain_def toy_reader_def toy_start_def)
  have consecutive: "consecutive_from (toy_cursor 10 10 5) 5"
    unfolding consecutive_from_def
  proof (intro allI impI)
    fix j
    assume "snd (Next (toy_cursor 10 10 5) j) = Status_SUCCESS"
    then have less: "5 + j < 10"
      by (simp add: Next_def toy_cursor_def split: if_splits)
    then have "unat (word_of_nat (5 + j) :: 64 word) = 5 + j"
      by (simp add: unat_of_nat del: of_nat_add)
    then show "case fst (Next (toy_cursor 10 10 5) j) of
        None \<Rightarrow> False
      | Some b \<Rightarrow>
          (case Block_Header b of
             None \<Rightarrow> False
           | Some h \<Rightarrow> unat (Number h) = unat (5 :: 64 word) + j)"
      using less by (simp add: Next_def toy_cursor_def toy_block_def del: of_nat_add)
  qed
  have received: "Recv_result ?srv 0 = Some (Inr (toy_request [3, 5, 3, 7, 1]))"
    by (simp add: toy_stream_def)
  have served: "Handle_envelope toy_imports (toy_server 10 10) ?srv
      (toy_request [3, 5, 3, 7, 1]) [] =
      Some (Proceed,
        [DeliverResponse_Block (Some (toy_block 5)), DeliverResponse_Block (Some (toy_block 6)),
         DeliverResponse_Block (Some (toy_block 7)), DeliverResponse_Status Status_SUCCESS])"
    by (simp add: toy_reader_def toy_start_def stop_number_def
        toy_imports_def toy_seekInfo_def toy_position_def toy_request_def toy_server_def
        toy_chain_def toy_stream_def toy_cursor_def toy_block_def
        Handle_envelope_def deliver_range_def deliver_loop.simps await_def ReadyChan_def
        Next_def sendBlockReply_def sendStatusReply_def Send_def)
  have stop: "stop_number (Reader (toy_chain 10 10)) 5 ?stop = StopNum 7"
    by (simp add: stop_number_def)
  have rounds: "\<forall>j<2. passes ?srv (Behavior ?seekInfo) 7 (toy_cursor 10 10 5)
      (length ([] :: DeliverResponse list) + j) j"
    by (simp add: passes_def await_def ReadyChan_def Next_def toy_cursor_def toy_block_def
        toy_stream_def less_2_cases_iff)
  note claim = responses_of_one_request [OF request iterator consecutive received, of "[]"]
  from claim served
  have first: "\<exists>blocks tail.
    [DeliverResponse_Block (Some (toy_block 5)), DeliverResponse_Block (Some (toy_block 6)),
     DeliverResponse_Block (Some (toy_block 7)), DeliverResponse_Status Status_SUCCESS] =
      [] @ blocks @ tail \<and>
    map reply_number blocks = map (\<lambda>j. Some (unat (5 :: 64 word) + j)) [0..<length blocks] \<and>
    (tail = [] \<or> (\<exists>status. tail = [DeliverResponse_Status status])) \<and>
    (Proceed = Proceed \<longrightarrow> tail = [DeliverResponse_Status Status_SUCCESS]) \<and>
    (Proceed = Exit (Returned None) \<longrightarrow> tail \<noteq> []) \<and>
    Handle_from toy_imports (toy_server 10 10) ?srv 0 [] =
      (case Proceed of
         Proceed \<Rightarrow>
           Handle_from toy_imports (toy_server 10 10) ?srv (Suc 0)
             [DeliverResponse_Block (Some (toy_block 5)),
              DeliverResponse_Block (Some (toy_block 6)),
              DeliverResponse_Block (Some (toy_block 7)),
              DeliverResponse_Status Status_SUCCESS]
       | Exit out \<Rightarrow>
           Some (out,
             [DeliverResponse_Block (Some (toy_block 5)),
              DeliverResponse_Block (Some (toy_block 6)),
              DeliverResponse_Block (Some (toy_block 7)),
              DeliverResponse_Status Status_SUCCESS]))"
    by blast
  from claim stop rounds
  have second: "deliver_loop ?srv (Behavior ?seekInfo) 7 (toy_cursor 10 10 5) 0 [] =
      deliver_loop ?srv (Behavior ?seekInfo) 7 (toy_cursor 10 10 5) 2
        ([] @ block_replies (toy_cursor 10 10 5) 0 2) \<and>
    map reply_number (block_replies (toy_cursor 10 10 5) 0 2) =
      map (\<lambda>j. Some (unat (5 :: 64 word) + j)) [0..<2]"
    by blast
  have "[0..<2] = [0, Suc 0]"
    by (simp add: upt_rec)
  with first second show ?thesis
    by simp
qed

text \<open>
  Claim C8. When the stop position of a well-formed, authorized request is present and
  its oneof is not set, no case of the switch matches: the request is not rejected, the
  stop number keeps its zero value, and the handler goes on to the cursor loop and the
  final status with the stop number 0.
\<close>

theorem unset_stop_runs_loop_with_zero:
  assumes "well_formed_authorized imp ds envelope chain seekInfo start stop"
    and "Iterator (Reader chain) start = (cursor, number)"
    and "Type stop = None"
  shows "stop_number (Reader chain) number stop = StopNum 0 \<and>
    Handle_envelope imp ds srv envelope sent =
      deliver_range srv (Behavior seekInfo) 0 cursor sent"
proof -
  have "stop_number (Reader chain) number stop = StopNum 0"
    using assms(3) by (simp add: stop_number_def)
  then show ?thesis
    using Handle_envelope_accepted [OF assms(1,2)] by simp
qed

theorem unset_stop_runs_loop_with_zero_witness:
  "stop_number (Reader (toy_chain 3 3)) 1 \<lparr>Type = None\<rparr> = StopNum 0 \<and>
   Handle_envelope toy_imports (toy_server 3 3) (toy_stream []) (toy_request [3, 1, 4, 0, 1]) [] =
     deliver_range (toy_stream []) SeekInfo_FAIL_IF_NOT_READY 0 (toy_cursor 3 3 1) []"
  using unset_stop_runs_loop_with_zero
     [of toy_imports "toy_server 3 3" "toy_request [3, 1, 4, 0, 1]" "toy_chain 3 3"
      "\<lparr>Start = toy_position 3 1, Stop = toy_position 4 0,
        Behavior = SeekInfo_FAIL_IF_NOT_READY\<rparr>"
      "\<lparr>Type = Some (SeekPosition_Specified (Some \<lparr>SeekSpecified_Number = 1\<rparr>))\<rparr>"
      "\<lparr>Type = None\<rparr>" "toy_cursor 3 3 1" 1 "toy_stream []" "[]"]
  by (simp add: well_formed_authorized_def routed_def toy_imports_def toy_request_def
      toy_server_def toy_chain_def toy_reader_def toy_seekInfo_def toy_position_def
      toy_start_def)

text \<open>
  Claim C9. When the stop position of a well-formed, authorized request is \<open>Newest\<close> and
  the ledger's height is 0, the stop number is \<open>0 - 1\<close> in 64-bit unsigned arithmetic,
  that is \<open>2 ^ 64 - 1\<close>. It is not an error: the handler goes on to the cursor loop with
  that stop number.
\<close>

theorem newest_on_empty_ledger_wraps:
  assumes "well_formed_authorized imp ds envelope chain seekInfo start stop"
    and "Iterator (Reader chain) start = (cursor, number)"
    and "Type stop = Some SeekPosition_Newest"
    and "Height (Reader chain) = 0"
  shows "\<exists>stopNum. unat stopNum = 2 ^ 64 - 1 \<and>
    stop_number (Reader chain) number stop = StopNum stopNum \<and>
    Handle_envelope imp ds srv envelope sent =
      deliver_range srv (Behavior seekInfo) stopNum cursor sent"
proof -
  have stop: "stop_number (Reader chain) number stop = StopNum (- 1)"
    using assms(3,4) by (simp add: stop_number_def)
  have "unat (- 1 :: 64 word) = 2 ^ 64 - 1"
    by (simp add: unsigned_minus_1_eq_mask mask_eq_exp_minus_1)
  moreover have "Handle_envelope imp ds srv envelope sent =
      deliver_range srv (Behavior seekInfo) (- 1) cursor sent"
    using Handle_envelope_accepted [OF assms(1,2)] stop by simp
  ultimately show ?thesis
    using stop by blast
qed

theorem newest_on_empty_ledger_wraps_witness:
  "\<exists>stopNum. unat stopNum = 18446744073709551615 \<and>
     stop_number (Reader (toy_chain 0 0)) 0 \<lparr>Type = Some SeekPosition_Newest\<rparr> =
       StopNum stopNum \<and>
     Handle_envelope toy_imports (toy_server 0 0) (toy_stream []) (toy_request [1, 0, 2, 0, 1]) [] =
       deliver_range (toy_stream []) SeekInfo_FAIL_IF_NOT_READY stopNum (toy_cursor 0 0 0) []"
  using newest_on_empty_ledger_wraps
     [of toy_imports "toy_server 0 0" "toy_request [1, 0, 2, 0, 1]" "toy_chain 0 0"
      "\<lparr>Start = toy_position 1 0, Stop = toy_position 2 0,
        Behavior = SeekInfo_FAIL_IF_NOT_READY\<rparr>"
      "\<lparr>Type = Some SeekPosition_Oldest\<rparr>"
      "\<lparr>Type = Some SeekPosition_Newest\<rparr>" "toy_cursor 0 0 0" 0 "toy_stream []" "[]"]
  by (simp add: well_formed_authorized_def routed_def toy_imports_def toy_request_def
      toy_server_def toy_chain_def toy_reader_def toy_seekInfo_def toy_position_def
      toy_start_def)

text \<open>
  Claim C10. The inner loop ends by its \<^verbatim>\<open>break\<close> exactly when, after some number of
  rounds that each delivered a block with another number, it delivers a block whose
  number is the stop number; the responses are then the blocks of these positions.
  Delivering a block whose number is greater than the stop number does not end the
  loop: it goes on at the next position. When the cursor yields, at every position
  from the current one on, a block that is delivered and is not numbered with the stop
  number, the loop never terminates.
\<close>

theorem loop_ends_only_at_stop_number:
  "(deliver_loop srv behavior stopNum cursor i sent = Some (Proceed, sent') \<longleftrightarrow>
      (\<exists>m. (\<forall>j<m. passes srv behavior stopNum cursor (length sent + j) (i + j)) \<and>
           stops_at srv behavior stopNum cursor (length sent + m) (i + m) \<and>
           sent' = sent @ block_replies cursor i (Suc m))) \<and>
   (await behavior (ReadyChan cursor i) = Go \<and>
    Next cursor i = (Some b, Status_SUCCESS) \<and>
    Block_Header b = Some h \<and>
    stopNum < Number h \<and>
    Send_result srv (length sent) = None \<longrightarrow>
      deliver_loop srv behavior stopNum cursor i sent =
        deliver_loop srv behavior stopNum cursor (Suc i)
          (sent @ [DeliverResponse_Block (Some b)])) \<and>
   ((\<forall>j. passes srv behavior stopNum cursor (length sent + j) (i + j)) \<longrightarrow>
      deliver_loop srv behavior stopNum cursor i sent = None)"
proof (intro conjI impI)
  show "deliver_loop srv behavior stopNum cursor i sent = Some (Proceed, sent') \<longleftrightarrow>
      (\<exists>m. (\<forall>j<m. passes srv behavior stopNum cursor (length sent + j) (i + j)) \<and>
           stops_at srv behavior stopNum cursor (length sent + m) (i + m) \<and>
           sent' = sent @ block_replies cursor i (Suc m))"
    by (rule deliver_loop_Proceed_iff)
next
  assume greater: "await behavior (ReadyChan cursor i) = Go \<and>
    Next cursor i = (Some b, Status_SUCCESS) \<and>
    Block_Header b = Some h \<and>
    stopNum < Number h \<and>
    Send_result srv (length sent) = None"
  then have "passes srv behavior stopNum cursor (length sent) i"
    by (auto simp: passes_def)
  from deliver_loop_step [OF this] greater
  show "deliver_loop srv behavior stopNum cursor i sent =
      deliver_loop srv behavior stopNum cursor (Suc i) (sent @ [DeliverResponse_Block (Some b)])"
    by simp
next
  assume "\<forall>j. passes srv behavior stopNum cursor (length sent + j) (i + j)"
  then show "deliver_loop srv behavior stopNum cursor i sent = None"
    by (rule deliver_loop_forever)
qed

theorem loop_ends_only_at_stop_number_witness:
  "deliver_loop (toy_stream []) SeekInfo_BLOCK_UNTIL_READY 6 (toy_cursor 5 10 5) 0 [] =
     Some (Proceed,
       [DeliverResponse_Block (Some (toy_block 5)), DeliverResponse_Block (Some (toy_block 6))]) \<and>
   deliver_loop (toy_stream []) SeekInfo_BLOCK_UNTIL_READY 3 (toy_cursor 10 10 5) 0 [] =
     deliver_loop (toy_stream []) SeekInfo_BLOCK_UNTIL_READY 3 (toy_cursor 10 10 5) (Suc 0)
       [DeliverResponse_Block (Some (toy_block 5))] \<and>
   deliver_loop (toy_stream []) SeekInfo_BLOCK_UNTIL_READY 3 sevens 0 [] = None"
proof -
  let ?srv = "toy_stream []"
  let ?wait = SeekInfo_BLOCK_UNTIL_READY
  let ?two = "[DeliverResponse_Block (Some (toy_block 5)),
    DeliverResponse_Block (Some (toy_block 6))]"
  have "(\<forall>j<1. passes ?srv ?wait 6 (toy_cursor 5 10 5)
        (length ([] :: DeliverResponse list) + j) (0 + j)) \<and>
      stops_at ?srv ?wait 6 (toy_cursor 5 10 5) (length ([] :: DeliverResponse list) + 1) (0 + 1) \<and>
      ?two = [] @ block_replies (toy_cursor 5 10 5) 0 (Suc 1)"
    by (simp add: passes_def stops_at_def await_def ReadyChan_def Next_def toy_cursor_def
        toy_block_def toy_stream_def block_replies_def)
  then have "\<exists>m. (\<forall>j<m. passes ?srv ?wait 6 (toy_cursor 5 10 5)
        (length ([] :: DeliverResponse list) + j) (0 + j)) \<and>
      stops_at ?srv ?wait 6 (toy_cursor 5 10 5) (length ([] :: DeliverResponse list) + m) (0 + m) \<and>
      ?two = [] @ block_replies (toy_cursor 5 10 5) 0 (Suc m)"
    by (rule exI)
  then have first: "deliver_loop ?srv ?wait 6 (toy_cursor 5 10 5) 0 [] = Some (Proceed, ?two)"
    using loop_ends_only_at_stop_number
      [of ?srv ?wait 6 "toy_cursor 5 10 5" 0 "[]" ?two]
    by blast
  have "await ?wait (ReadyChan (toy_cursor 10 10 5) 0) = Go \<and>
      Next (toy_cursor 10 10 5) 0 = (Some (toy_block 5), Status_SUCCESS) \<and>
      Block_Header (toy_block 5) = Some \<lparr>Number = 5\<rparr> \<and>
      (3 :: 64 word) < Number \<lparr>Number = 5\<rparr> \<and>
      Send_result ?srv (length ([] :: DeliverResponse list)) = None"
    by (simp add: await_def ReadyChan_def Next_def toy_cursor_def toy_block_def toy_stream_def)
  then have second: "deliver_loop ?srv ?wait 3 (toy_cursor 10 10 5) 0 [] =
      deliver_loop ?srv ?wait 3 (toy_cursor 10 10 5) (Suc 0)
        ([] @ [DeliverResponse_Block (Some (toy_block 5))])"
    using loop_ends_only_at_stop_number
      [of ?srv ?wait 3 "toy_cursor 10 10 5" 0 "[]" _ "toy_block 5" "\<lparr>Number = 5\<rparr>"]
    by blast
  have "\<forall>j. passes ?srv ?wait 3 sevens (length ([] :: DeliverResponse list) + j) (0 + j)"
    by (simp add: passes_def await_def ReadyChan_def Next_def sevens_def toy_block_def
        toy_stream_def)
  then have third: "deliver_loop ?srv ?wait 3 sevens 0 [] = None"
    using loop_ends_only_at_stop_number [of ?srv ?wait 3 sevens 0 "[]"]
    by blast
  from first second third show ?thesis
    by simp
qed

end
